theory Spec2Isabelle
  imports Complex_Main "HOL-Library.Sublist" "HOL-Library.Log_Nat"
begin

section \<open>Conventions of the embedding\<close>

text \<open>
  The development embeds the ability-resolution and world-simulation core of the game
  server: \<^verbatim>\<open>server/gameEngine.ts\<close> (class \<^verbatim>\<open>GameEngine\<close> and the
  \<^verbatim>\<open>DatabaseStorage\<close> class that follows it in the same file), the rebirth
  endpoint of \<^verbatim>\<open>server/routes.ts\<close> and the tables of \<^verbatim>\<open>shared/schema.ts\<close>.

  \<^item> A database table is the list of its rows. A \<^verbatim>\<open>select ... where\<close> is a
    \<open>filter\<close>, the destructuring \<^verbatim>\<open>const [row] = ...\<close> takes the first row
    (\<open>find\<close>), an \<^verbatim>\<open>update ... set ... where\<close> maps over the rows.
    The primary key of the schema is the hypothesis \<open>distinct\<close> on the ids where a
    theorem needs it. Of the constraint violations the database raises, the model has
    the primary key of \<^verbatim>\<open>monsters\<close> at insertion; the others, and the 32-bit range
    of an \<^verbatim>\<open>integer\<close> column, are outside the model.
  \<^item> \<^verbatim>\<open>integer\<close> columns are \<open>int\<close>, \<^verbatim>\<open>real\<close> columns are \<open>real\<close>, and a
    JavaScript number is the real it denotes. The experience award of a kill and the
    arithmetic of the spawner are computed as the engine computes them, in IEEE doubles:
    each operation is the exact operation followed by rounding to the nearest double
    (section "IEEE doubles"). The other floors of the engine, \<open>\<lfloor>x * 0.1\<rfloor>\<close>,
    \<open>\<lfloor>x * 0.01\<rfloor>\<close>, \<open>\<lfloor>x * 0.02\<rfloor>\<close> and \<open>\<lfloor>x / 100\<rfloor>\<close> on an integer \<open>x\<close>, the range
    test and the loot drop are taken over exact reals. The single precision in which a
    \<^verbatim>\<open>real\<close> column keeps a number is not modelled.
  \<^item> An \<^verbatim>\<open>async\<close> method runs to completion without interleaving; it takes the
    world and returns the new one. What the environment chooses is an argument:
    \<open>now\<close> is the reading of the clock (\<^verbatim>\<open>Date.now()\<close> and the database's
    \<^verbatim>\<open>now()\<close>, in milliseconds) during the call, \<open>rnd\<close> the successive results
    of \<^verbatim>\<open>Math.random()\<close>, \<open>uuid\<close> the successive results of
    \<^verbatim>\<open>gen_random_uuid()\<close>.
  \<^item> The field \<open>writes\<close> of the world is the trace of the write statements issued to
    the database, in order. It is what "a storage update is issued" refers to.
  \<^item> Strings are ASCII.
\<close>

section \<open>Strings\<close>

text \<open>\<^verbatim>\<open>String.prototype.toLowerCase\<close> on ASCII: the letters A to Z move by 32.\<close>

definition toLowerCase_char :: "char \<Rightarrow> char" where
  "toLowerCase_char c =
     (let n = (of_char c :: nat) in if 65 \<le> n \<and> n \<le> 90 then char_of (n + 32) else c)"

definition toLowerCase :: "string \<Rightarrow> string" where
  "toLowerCase s = map toLowerCase_char s"

text \<open>
  \<^verbatim>\<open>s.replace(" ", "_")\<close>: with a string as pattern, JavaScript replaces the first
  occurrence only.
\<close>

fun replaceFirst :: "char \<Rightarrow> char \<Rightarrow> string \<Rightarrow> string" where
  "replaceFirst a b [] = []"
| "replaceFirst a b (c # cs) = (if c = a then b # cs else c # replaceFirst a b cs)"

text \<open>For comparison, the normalisation in the words of the specification: every space.\<close>

definition replaceAll :: "char \<Rightarrow> char \<Rightarrow> string \<Rightarrow> string" where
  "replaceAll a b s = map (\<lambda>c. if c = a then b else c) s"

text \<open>
  A number inside a template literal. The numbers the engine prints are integers, which
  JavaScript renders in decimal, with a minus sign when negative.
\<close>

definition digitChar :: "nat \<Rightarrow> char" where
  "digitChar d = char_of (of_char (CHR ''0'') + d)"

fun digitsOf :: "nat \<Rightarrow> string" where
  "digitsOf n = (if 10 \<le> n then digitsOf (n div 10) @ [digitChar (n mod 10)] else [digitChar n])"

declare digitsOf.simps [simp del]

definition toString :: "int \<Rightarrow> string" where
  "toString i = (if 0 \<le> i then digitsOf (nat i) else CHR ''-'' # digitsOf (nat (- i)))"

section \<open>IEEE doubles\<close>

text \<open>
  A double is modelled as the real number it denotes. \<open>toDouble\<close> rounds a real to
  binary64: 53 significant bits, to the nearest, ties to the even significand, with the
  subnormal numbers below \<open>2 ^ (-1022)\<close>. Overflow to infinity needs a number above
  \<open>2 ^ 1023\<close> and is not modelled, nor is NaN.
\<close>

definition pow2 :: "int \<Rightarrow> real" where
  "pow2 k = (if 0 \<le> k then 2 ^ nat k else 1 / 2 ^ nat (- k))"

text \<open>The exponent \<open>e\<close> of a non-zero number: \<open>2 ^ e \<le> \<bar>x\<bar> < 2 ^ (e + 1)\<close>.\<close>

definition binade :: "real \<Rightarrow> int" where
  "binade x = (if 1 \<le> \<bar>x\<bar> then bitlen \<lfloor>\<bar>x\<bar>\<rfloor> - 1
               else - int (ceillog2 (nat \<lceil>1 / \<bar>x\<bar>\<rceil>)))"

text \<open>The nearest integer, a tie going to the even one.\<close>

definition roundEven :: "real \<Rightarrow> int" where
  "roundEven y =
     (let r = \<lfloor>y\<rfloor>; d = y - real_of_int r
      in if d < 1 / 2 then r else if 1 / 2 < d then r + 1 else if even r then r else r + 1)"

text \<open>
  Rounding to a double: the unit in the last place of the binade of \<open>x\<close> is
  \<open>2 ^ (e - 52)\<close>, and the result is the nearest multiple of it.
\<close>

definition toDouble :: "real \<Rightarrow> real" where
  "toDouble x =
     (if x = 0 then 0
      else (let u = pow2 (max (binade x) (- 1022) - 52)
            in real_of_int (roundEven (x / u)) * u))"

text \<open>The arithmetic of JavaScript, and an integer column read as a number.\<close>

definition dadd :: "real \<Rightarrow> real \<Rightarrow> real" where
  "dadd a b = toDouble (a + b)"

definition dsub :: "real \<Rightarrow> real \<Rightarrow> real" where
  "dsub a b = toDouble (a - b)"

definition dmul :: "real \<Rightarrow> real \<Rightarrow> real" where
  "dmul a b = toDouble (a * b)"

definition ddiv :: "real \<Rightarrow> real \<Rightarrow> real" where
  "ddiv a b = toDouble (a / b)"

definition jsNumber :: "int \<Rightarrow> real" where
  "jsNumber n = toDouble (real_of_int n)"

section \<open>Data model\<close>

subsection \<open>Rows of \<^verbatim>\<open>shared/schema.ts\<close>\<close>

text \<open>
  Table \<^verbatim>\<open>players\<close>. The columns \<^verbatim>\<open>unlockedAbilities\<close>, \<^verbatim>\<open>lastSeen\<close> and
  \<^verbatim>\<open>createdAt\<close> are never read or written by the core and are left out.
\<close>

record player =
  p_id :: string
  p_username :: string
  p_characterName :: string
  p_level :: int
  p_experience :: int
  p_rebirthCycle :: int
  p_health :: int
  p_maxHealth :: int
  p_aura :: int
  p_maxAura :: int
  p_hiddenStrength :: int
  p_hiddenAgility :: int
  p_hiddenIntelligence :: int
  p_hiddenEndurance :: int
  p_positionX :: real
  p_positionY :: real
  p_positionZ :: real
  p_rotationY :: real
  p_isInTutorialZone :: bool
  p_tutorialProgress :: int
  p_isOnline :: bool

text \<open>A freshly registered player: the column defaults of the schema.\<close>

definition newPlayer :: "string \<Rightarrow> string \<Rightarrow> player" where
  "newPlayer pid uname =
     \<lparr> p_id = pid, p_username = uname, p_characterName = uname,
       p_level = 1, p_experience = 0, p_rebirthCycle = 0,
       p_health = 1000, p_maxHealth = 1000, p_aura = 500, p_maxAura = 500,
       p_hiddenStrength = 0, p_hiddenAgility = 0, p_hiddenIntelligence = 0,
       p_hiddenEndurance = 0,
       p_positionX = 0, p_positionY = 0, p_positionZ = 0, p_rotationY = 0,
       p_isInTutorialZone = True, p_tutorialProgress = 0, p_isOnline = False \<rparr>"

text \<open>Table \<^verbatim>\<open>monsters\<close> (without \<^verbatim>\<open>spawnedAt\<close>).\<close>

record monster =
  m_id :: string
  m_name :: string
  m_level :: int
  m_health :: int
  m_maxHealth :: int
  m_positionX :: real
  m_positionY :: real
  m_positionZ :: real
  m_zone :: string
  m_difficultyMultiplier :: real
  m_isAlive :: bool

text \<open>Table \<^verbatim>\<open>loot_items\<close>: the columns the core reads.\<close>

record loot_item =
  li_id :: string
  li_name :: string
  li_type :: string

text \<open>Table \<^verbatim>\<open>player_inventory\<close> (without \<^verbatim>\<open>acquiredAt\<close>).\<close>

record player_inventory =
  inv_id :: string
  inv_playerId :: string
  inv_itemId :: string
  inv_quantity :: int

text \<open>
  Table \<^verbatim>\<open>world_loot\<close>. \<^verbatim>\<open>droppedBy\<close>, \<^verbatim>\<open>spawnedAt\<close> and \<^verbatim>\<open>expiresAt\<close>
  are nullable columns.
\<close>

record world_loot =
  wl_id :: string
  wl_itemId :: string
  wl_quantity :: int
  wl_positionX :: real
  wl_positionY :: real
  wl_positionZ :: real
  wl_zone :: string
  wl_droppedBy :: "string option"
  wl_spawnedAt :: "int option"
  wl_expiresAt :: "int option"

subsection \<open>Partial updates\<close>

text \<open>
  \<^verbatim>\<open>Partial<Player>\<close>, for the columns that some update of the core sets.
  An absent key is \<open>None\<close>.
\<close>

record player_patch =
  u_level :: "int option"
  u_experience :: "int option"
  u_rebirthCycle :: "int option"
  u_health :: "int option"
  u_maxHealth :: "int option"
  u_aura :: "int option"
  u_maxAura :: "int option"
  u_hiddenStrength :: "int option"
  u_hiddenAgility :: "int option"
  u_hiddenIntelligence :: "int option"
  u_hiddenEndurance :: "int option"

definition noPatch :: player_patch where
  "noPatch =
     \<lparr> u_level = None, u_experience = None, u_rebirthCycle = None, u_health = None,
       u_maxHealth = None, u_aura = None, u_maxAura = None, u_hiddenStrength = None,
       u_hiddenAgility = None, u_hiddenIntelligence = None, u_hiddenEndurance = None \<rparr>"

definition orKeep :: "'a option \<Rightarrow> 'a \<Rightarrow> 'a" where
  "orKeep v old = (case v of None \<Rightarrow> old | Some x \<Rightarrow> x)"

definition applyPatch :: "player_patch \<Rightarrow> player \<Rightarrow> player" where
  "applyPatch u p =
     p\<lparr> p_level := orKeep (u_level u) (p_level p),
        p_experience := orKeep (u_experience u) (p_experience p),
        p_rebirthCycle := orKeep (u_rebirthCycle u) (p_rebirthCycle p),
        p_health := orKeep (u_health u) (p_health p),
        p_maxHealth := orKeep (u_maxHealth u) (p_maxHealth p),
        p_aura := orKeep (u_aura u) (p_aura p),
        p_maxAura := orKeep (u_maxAura u) (p_maxAura p),
        p_hiddenStrength := orKeep (u_hiddenStrength u) (p_hiddenStrength p),
        p_hiddenAgility := orKeep (u_hiddenAgility u) (p_hiddenAgility p),
        p_hiddenIntelligence := orKeep (u_hiddenIntelligence u) (p_hiddenIntelligence p),
        p_hiddenEndurance := orKeep (u_hiddenEndurance u) (p_hiddenEndurance p) \<rparr>"

subsection \<open>The world\<close>

text \<open>The write statements the core issues, as they appear in the trace.\<close>

datatype db_write =
    UpdatePlayer string player_patch
  | UpdateMonsterHealth string int
  | SoftDeleteMonster string
  | InsertMonster monster
  | InsertWorldLoot world_loot
  | DeleteWorldLoot string
  | DeleteExpiredWorldLoot int
  | InsertInventory player_inventory
  | UpdateInventoryQuantity string int

text \<open>
  The tables, the engine's in-memory map
  \<^verbatim>\<open>playerCooldowns: Map<string, Map<string, number>>\<close>, and the trace of writes.
\<close>

record world =
  players :: "player list"
  monsters :: "monster list"
  lootItems :: "loot_item list"
  playerInventory :: "player_inventory list"
  worldLoot :: "world_loot list"
  playerCooldowns :: "string \<Rightarrow> (string \<Rightarrow> int option) option"
  writes :: "db_write list"

subsection \<open>Abilities and results\<close>

record ability_definition =
  a_name :: string
  a_auraCost :: int
  a_damage :: int
  a_range :: int
  a_cooldown :: int
  a_requiredLevel :: int

record ability_result =
  r_success :: bool
  r_damage :: "int option"
  r_abilityUsed :: string
  r_playerId :: string
  r_targetId :: "string option"
  r_message :: string
  r_auraCost :: int

section \<open>Ability catalog\<close>

text \<open>\<^verbatim>\<open>GameEngine.initializeAbilities\<close>: the four entries of the map, by key.\<close>

definition stone_bullet :: ability_definition where
  "stone_bullet =
     \<lparr> a_name = ''Stone Bullet'', a_auraCost = 50, a_damage = 150, a_range = 30,
       a_cooldown = 2000, a_requiredLevel = 1 \<rparr>"

definition wind_manipulation :: ability_definition where
  "wind_manipulation =
     \<lparr> a_name = ''Wind Manipulation'', a_auraCost = 75, a_damage = 200, a_range = 15,
       a_cooldown = 3000, a_requiredLevel = 15 \<rparr>"

definition ground_dig_up :: ability_definition where
  "ground_dig_up =
     \<lparr> a_name = ''Ground Dig-Up'', a_auraCost = 100, a_damage = 300, a_range = 10,
       a_cooldown = 5000, a_requiredLevel = 60 \<rparr>"

definition aura_release :: ability_definition where
  "aura_release =
     \<lparr> a_name = ''Aura Release'', a_auraCost = 200, a_damage = 500, a_range = 25,
       a_cooldown = 10000, a_requiredLevel = 85 \<rparr>"

definition catalog :: "(string \<times> ability_definition) list" where
  "catalog =
     [(''stone_bullet'', stone_bullet), (''wind_manipulation'', wind_manipulation),
      (''ground_dig_up'', ground_dig_up), (''aura_release'', aura_release)]"

definition abilities :: "string \<Rightarrow> ability_definition option" where
  "abilities = map_of catalog"

text \<open>
  The lookup of \<^verbatim>\<open>useAbility\<close>:
  \<^verbatim>\<open>this.abilities.get(abilityName.toLowerCase().replace(" ", "_"))\<close>.
\<close>

definition normalizeName :: "string \<Rightarrow> string" where
  "normalizeName abilityName = replaceFirst (CHR '' '') (CHR ''_'') (toLowerCase abilityName)"

definition resolveAbility :: "string \<Rightarrow> ability_definition option" where
  "resolveAbility abilityName = abilities (normalizeName abilityName)"

text \<open>The normalisation as the specification words it: lowercase, every space replaced.\<close>

definition specNormalize :: "string \<Rightarrow> string" where
  "specNormalize abilityName = replaceAll (CHR '' '') (CHR ''_'') (toLowerCase abilityName)"

section \<open>Storage\<close>

text \<open>Class \<^verbatim>\<open>DatabaseStorage\<close>: the methods the core calls.\<close>

definition getPlayer :: "string \<Rightarrow> world \<Rightarrow> player option" where
  "getPlayer pid s = find (\<lambda>p. p_id p = pid) (players s)"

text \<open>
  \<^verbatim>\<open>updatePlayer\<close> also returns the updated row; no caller in the core reads it.
\<close>

definition updatePlayer :: "string \<Rightarrow> player_patch \<Rightarrow> world \<Rightarrow> world" where
  "updatePlayer pid updates s =
     s\<lparr> players := map (\<lambda>p. if p_id p = pid then applyPatch updates p else p) (players s),
        writes := writes s @ [UpdatePlayer pid updates] \<rparr>"

definition getOnlinePlayers :: "world \<Rightarrow> player list" where
  "getOnlinePlayers s = filter (\<lambda>p. p_isOnline p) (players s)"

definition getMonstersInZone :: "string \<Rightarrow> world \<Rightarrow> monster list" where
  "getMonstersInZone zone s = filter (\<lambda>m. m_zone m = zone \<and> m_isAlive m) (monsters s)"

text \<open>
  \<^verbatim>\<open>updateMonster(id, updates)\<close>: the only \<^verbatim>\<open>Partial<Monster>\<close> the core passes is
  \<^verbatim>\<open>{ health: newHealth }\<close>.
\<close>

definition updateMonster :: "string \<Rightarrow> int \<Rightarrow> world \<Rightarrow> world" where
  "updateMonster mid newHealth s =
     s\<lparr> monsters := map (\<lambda>m. if m_id m = mid then m\<lparr>m_health := newHealth\<rparr> else m) (monsters s),
        writes := writes s @ [UpdateMonsterHealth mid newHealth] \<rparr>"

text \<open>\<^verbatim>\<open>deleteMonster\<close> is a soft delete: it sets \<^verbatim>\<open>isAlive\<close> to false.\<close>

definition deleteMonster :: "string \<Rightarrow> world \<Rightarrow> world" where
  "deleteMonster mid s =
     s\<lparr> monsters := map (\<lambda>m. if m_id m = mid then m\<lparr>m_isAlive := False\<rparr> else m) (monsters s),
        writes := writes s @ [SoftDeleteMonster mid] \<rparr>"

text \<open>
  \<^verbatim>\<open>createMonster\<close>: the row gets its id from \<^verbatim>\<open>gen_random_uuid()\<close> and the default
  \<^verbatim>\<open>isAlive = true\<close>. The id is the primary key of the table: an id that is already
  there is rejected and the insert throws (\<open>None\<close>).
\<close>

definition createMonster :: "string \<Rightarrow> monster \<Rightarrow> world \<Rightarrow> world option" where
  "createMonster newId insertMonster s =
     (if newId \<in> set (map m_id (monsters s)) then None
      else (let row = insertMonster\<lparr>m_id := newId, m_isAlive := True\<rparr>
            in Some (s\<lparr> monsters := monsters s @ [row],
                        writes := writes s @ [InsertMonster row] \<rparr>)))"

definition getAllLootItems :: "world \<Rightarrow> loot_item list" where
  "getAllLootItems s = lootItems s"

text \<open>
  \<^verbatim>\<open>createWorldLoot\<close>: the id is generated, \<^verbatim>\<open>spawnedAt\<close> defaults to \<^verbatim>\<open>now()\<close>
  and \<^verbatim>\<open>expiresAt\<close> to \<^verbatim>\<open>now() + interval '5 minutes'\<close>.
\<close>

definition createWorldLoot :: "int \<Rightarrow> string \<Rightarrow> world_loot \<Rightarrow> world \<Rightarrow> world" where
  "createWorldLoot now newId insertLoot s =
     (let row = insertLoot\<lparr> wl_id := newId, wl_spawnedAt := Some now,
                             wl_expiresAt := Some (now + 300000) \<rparr>
      in s\<lparr> worldLoot := worldLoot s @ [row], writes := writes s @ [InsertWorldLoot row] \<rparr>)"

text \<open>
  \<^verbatim>\<open>addToInventory\<close>: an existing stack of the item grows, otherwise a row is inserted.
\<close>

definition addToInventory :: "string \<Rightarrow> string \<Rightarrow> string \<Rightarrow> int \<Rightarrow> world \<Rightarrow> world" where
  "addToInventory newId playerId itemId quantity s =
     (case find (\<lambda>r. inv_playerId r = playerId \<and> inv_itemId r = itemId) (playerInventory s) of
        Some existing \<Rightarrow>
          s\<lparr> playerInventory :=
                map (\<lambda>r. if inv_id r = inv_id existing
                          then r\<lparr>inv_quantity := inv_quantity existing + quantity\<rparr> else r)
                  (playerInventory s),
             writes := writes s @
                [UpdateInventoryQuantity (inv_id existing) (inv_quantity existing + quantity)] \<rparr>
      | None \<Rightarrow>
          (let row = \<lparr> inv_id = newId, inv_playerId = playerId, inv_itemId = itemId,
                       inv_quantity = quantity \<rparr>
           in s\<lparr> playerInventory := playerInventory s @ [row],
                 writes := writes s @ [InsertInventory row] \<rparr>))"

text \<open>
  The filter \<^verbatim>\<open>expiresAt > now()\<close> of SQL: a null \<^verbatim>\<open>expiresAt\<close> does not pass.
\<close>

definition notExpired :: "int \<Rightarrow> world_loot \<Rightarrow> bool" where
  "notExpired now l = (case wl_expiresAt l of None \<Rightarrow> False | Some e \<Rightarrow> now < e)"

definition collectWorldLoot :: "int \<Rightarrow> string \<Rightarrow> string \<Rightarrow> string \<Rightarrow> world \<Rightarrow> bool \<times> world" where
  "collectWorldLoot now newId playerId lootId s =
     (case find (\<lambda>l. wl_id l = lootId \<and> notExpired now l) (worldLoot s) of
        None \<Rightarrow> (False, s)
      | Some loot \<Rightarrow>
          (let s1 = addToInventory newId playerId (wl_itemId loot) (wl_quantity loot) s
           in (True, s1\<lparr> worldLoot := filter (\<lambda>l. wl_id l \<noteq> lootId) (worldLoot s1),
                         writes := writes s1 @ [DeleteWorldLoot lootId] \<rparr>)))"

definition cleanupExpiredLoot :: "int \<Rightarrow> world \<Rightarrow> world" where
  "cleanupExpiredLoot now s =
     s\<lparr> worldLoot :=
          filter (\<lambda>l. \<not> (case wl_expiresAt l of None \<Rightarrow> False | Some e \<Rightarrow> e \<le> now)) (worldLoot s),
        writes := writes s @ [DeleteExpiredWorldLoot now] \<rparr>"

text \<open>
  \<^verbatim>\<open>performRebirth\<close> throws when the player is missing (\<open>Inl\<close>), and otherwise returns
  the updated row with the new world.
\<close>

definition performRebirth :: "string \<Rightarrow> world \<Rightarrow> string + (player option \<times> world)" where
  "performRebirth playerId s =
     (case getPlayer playerId s of
        None \<Rightarrow> Inl ''Player not found''
      | Some player \<Rightarrow>
          (let statGains = \<lfloor>real_of_int (p_level player * 10)\<rfloor>;
               updates = noPatch
                 \<lparr> u_level := Some 1, u_experience := Some 0,
                   u_rebirthCycle := Some (p_rebirthCycle player + 1),
                   u_health := Some 1000, u_maxHealth := Some 1000,
                   u_aura := Some 500, u_maxAura := Some 500,
                   u_hiddenStrength := Some (p_hiddenStrength player + statGains),
                   u_hiddenAgility := Some (p_hiddenAgility player + statGains),
                   u_hiddenIntelligence := Some (p_hiddenIntelligence player + statGains),
                   u_hiddenEndurance := Some (p_hiddenEndurance player + statGains) \<rparr>;
               s1 = updatePlayer playerId updates s
           in Inr (getPlayer playerId s1, s1)))"

section \<open>Rebirth endpoint\<close>

text \<open>
  \<^verbatim>\<open>POST /api/game/rebirth/:playerId\<close> of \<^verbatim>\<open>routes.ts\<close>. The response is the HTTP
  status with either the message or the reborn player. The broadcast of
  \<^verbatim>\<open>player_rebirth\<close> to the open sockets changes no game state and is not modelled.
\<close>

datatype rebirth_body = Message string | RebornPlayer "player option"

definition rebirthEndpoint :: "string \<Rightarrow> world \<Rightarrow> (int \<times> rebirth_body) \<times> world" where
  "rebirthEndpoint playerId s =
     (case getPlayer playerId s of
        None \<Rightarrow> ((404, Message ''Player not found''), s)
      | Some player \<Rightarrow>
          if p_level player < 100 then ((400, Message ''Must reach level 100 to rebirth''), s)
          else (case performRebirth (p_id player) s of
                  Inl msg \<Rightarrow> ((500, Message msg), s)
                | Inr (reborntPlayer, s1) \<Rightarrow> ((200, RebornPlayer reborntPlayer), s1)))"

section \<open>Game engine\<close>

subsection \<open>Cooldown tracker\<close>

text \<open>
  \<^verbatim>\<open>cooldownEnd ? Date.now() < cooldownEnd : false\<close>: a missing entry is
  \<^verbatim>\<open>undefined\<close> and the number 0 is falsy as well. The key is the ability name as
  the caller passed it.
\<close>

definition isOnCooldown :: "int \<Rightarrow> string \<Rightarrow> string \<Rightarrow> world \<Rightarrow> bool" where
  "isOnCooldown now playerId abilityName s =
     (case playerCooldowns s playerId of
        None \<Rightarrow> False
      | Some cds \<Rightarrow>
          (case cds abilityName of
             None \<Rightarrow> False
           | Some cooldownEnd \<Rightarrow> if cooldownEnd \<noteq> 0 then now < cooldownEnd else False))"

definition getRemainingCooldown :: "int \<Rightarrow> string \<Rightarrow> string \<Rightarrow> world \<Rightarrow> int" where
  "getRemainingCooldown now playerId abilityName s =
     (case playerCooldowns s playerId of
        None \<Rightarrow> 0
      | Some cds \<Rightarrow>
          (case cds abilityName of
             None \<Rightarrow> 0
           | Some cooldownEnd \<Rightarrow> if cooldownEnd \<noteq> 0 then max 0 (cooldownEnd - now) else 0))"

definition setCooldown :: "int \<Rightarrow> string \<Rightarrow> string \<Rightarrow> int \<Rightarrow> world \<Rightarrow> world" where
  "setCooldown now playerId abilityName duration s =
     (let cds = (case playerCooldowns s playerId of None \<Rightarrow> Map.empty | Some m \<Rightarrow> m)
      in s\<lparr> playerCooldowns :=
              (playerCooldowns s)(playerId \<mapsto> cds(abilityName \<mapsto> now + duration)) \<rparr>)"

subsection \<open>Targets\<close>

definition isInRange :: "player \<Rightarrow> monster \<Rightarrow> real \<Rightarrow> bool" where
  "isInRange player m rng =
     (let dx = p_positionX player - m_positionX m;
          dy = p_positionY player - m_positionY m;
          dz = p_positionZ player - m_positionZ m;
          distance = sqrt (dx * dx + dy * dy + dz * dz)
      in distance \<le> rng)"

definition findNearbyMonster :: "player \<Rightarrow> string \<Rightarrow> world \<Rightarrow> monster option" where
  "findNearbyMonster player targetId s =
     find (\<lambda>m. m_id m = targetId \<and> isInRange player m 50) (getMonstersInZone ''selha_latna'' s)"

subsection \<open>Experience\<close>

definition awardExperience :: "player \<Rightarrow> int \<Rightarrow> world \<Rightarrow> world" where
  "awardExperience player expAmount s =
     (let newExp = p_experience player + expAmount;
          newLevel = \<lfloor>real_of_int newExp / 100\<rfloor> + 1;
          updates = noPatch\<lparr>u_experience := Some newExp\<rparr>;
          updates' =
            (if newLevel > p_level player \<and> newLevel \<le> 100
             then updates\<lparr> u_level := Some newLevel,
                           u_maxHealth := Some (1000 + newLevel * 50),
                           u_maxAura := Some (500 + newLevel * 25),
                           u_health := Some (1000 + newLevel * 50),
                           u_aura := Some (500 + newLevel * 25) \<rparr>
             else updates)
      in updatePlayer (p_id player) updates' s)"

subsection \<open>Loot drop\<close>

text \<open>
  The loop over \<^verbatim>\<open>drops\<close>: \<open>k\<close> is the number of random numbers drawn so far,
  \<open>j\<close> the number of ids generated so far.
\<close>

fun createDrops ::
  "int \<Rightarrow> (nat \<Rightarrow> real) \<Rightarrow> (nat \<Rightarrow> string) \<Rightarrow> nat \<Rightarrow> nat \<Rightarrow> monster \<Rightarrow> string \<Rightarrow>
   (string \<times> int) list \<Rightarrow> world \<Rightarrow> world" where
  "createDrops now rnd uuid k j m killerId [] s = s"
| "createDrops now rnd uuid k j m killerId ((itemId, quantity) # drops) s =
     (let offsetX = (rnd k - 0.5) * 10;
          offsetZ = (rnd (k + 1) - 0.5) * 10;
          s1 = createWorldLoot now (uuid j)
                 \<lparr> wl_id = [], wl_itemId = itemId, wl_quantity = quantity,
                   wl_positionX = m_positionX m + offsetX,
                   wl_positionY = m_positionY m,
                   wl_positionZ = m_positionZ m + offsetZ,
                   wl_zone = m_zone m, wl_droppedBy = Some killerId,
                   wl_spawnedAt = None, wl_expiresAt = None \<rparr> s
      in createDrops now rnd uuid (k + 2) (j + 1) m killerId drops s1)"

definition dropLoot ::
  "int \<Rightarrow> (nat \<Rightarrow> real) \<Rightarrow> (nat \<Rightarrow> string) \<Rightarrow> monster \<Rightarrow> string \<Rightarrow> world \<Rightarrow> world" where
  "dropLoot now rnd uuid m killerId s =
     (let allLootItems = getAllLootItems s in
      case (find (\<lambda>item. li_name item = ''Monster Bone'') allLootItems,
            find (\<lambda>item. li_name item = ''Monster Meat'') allLootItems) of
        (Some boneItem, Some meatItem) \<Rightarrow>
          (let dropChance = min 0.8 (0.3 + real_of_int (m_level m) * 0.01);
               boneDrops = rnd 0 < dropChance;
               drops1 = (if boneDrops then [(li_id boneItem, \<lfloor>rnd 1 * 3\<rfloor> + 1)] else []);
               k1 = (if boneDrops then 2 else 1);
               meatDrops = rnd k1 < dropChance * 0.6;
               drops2 = (if meatDrops then [(li_id meatItem, \<lfloor>rnd (k1 + 1) * 2\<rfloor> + 1)] else []);
               k2 = (if meatDrops then k1 + 2 else k1 + 1)
           in createDrops now rnd uuid k2 0 m killerId (drops1 @ drops2) s)
      | _ \<Rightarrow> s)"

subsection \<open>Ability use\<close>

text \<open>
  The award of a kill,
  \<^verbatim>\<open>Math.floor(monster.level * 10 * (1 + player.rebirthCycle * 0.1))\<close>, as JavaScript
  evaluates it: the products from left to right, the literal \<^verbatim>\<open>0.1\<close> being the double
  nearest to one tenth, every operation rounded.
\<close>

definition killExperience :: "int \<Rightarrow> int \<Rightarrow> int" where
  "killExperience monsterLevel rebirthCycle =
     \<lfloor>dmul (dmul (jsNumber monsterLevel) 10)
            (dadd 1 (dmul (jsNumber rebirthCycle) (toDouble 0.1)))\<rfloor>"

definition failureResult :: "string \<Rightarrow> string \<Rightarrow> string \<Rightarrow> int \<Rightarrow> ability_result" where
  "failureResult abilityName playerId msg cost =
     \<lparr> r_success = False, r_damage = None, r_abilityUsed = abilityName,
       r_playerId = playerId, r_targetId = None, r_message = msg, r_auraCost = cost \<rparr>"

text \<open>
  The block \<^verbatim>\<open>if (targetId) { ... }\<close> of \<^verbatim>\<open>useAbility\<close>: an absent target and
  the empty string are both falsy. \<open>player\<close> is the row as it was read at the start of the
  call.
\<close>

definition handleTarget ::
  "int \<Rightarrow> (nat \<Rightarrow> real) \<Rightarrow> (nat \<Rightarrow> string) \<Rightarrow> player \<Rightarrow> int \<Rightarrow> string option \<Rightarrow> world \<Rightarrow> world" where
  "handleTarget now rnd uuid player totalDamage targetId s =
     (case targetId of
        None \<Rightarrow> s
      | Some tid \<Rightarrow>
          if tid = [] then s
          else (case findNearbyMonster player tid s of
                  None \<Rightarrow> s
                | Some m \<Rightarrow>
                    (let newHealth = max 0 (m_health m - totalDamage);
                         s1 = updateMonster (m_id m) newHealth s
                     in if newHealth \<le> 0
                        then (let s2 = deleteMonster (m_id m) s1;
                                  expGain = killExperience (m_level m) (p_rebirthCycle player);
                                  s3 = awardExperience player expGain s2
                              in dropLoot now rnd uuid m (p_id player) s3)
                        else s1)))"

definition useAbility ::
  "int \<Rightarrow> (nat \<Rightarrow> real) \<Rightarrow> (nat \<Rightarrow> string) \<Rightarrow> string \<Rightarrow> string \<Rightarrow> string option \<Rightarrow> world \<Rightarrow>
   ability_result \<times> world" where
  "useAbility now rnd uuid playerId abilityName targetId s =
     (case getPlayer playerId s of
        None \<Rightarrow> (failureResult abilityName playerId ''Player not found'' 0, s)
      | Some player \<Rightarrow>
          (case abilities (normalizeName abilityName) of
             None \<Rightarrow> (failureResult abilityName playerId ''Unknown ability'' 0, s)
           | Some ability \<Rightarrow>
               if p_level player < a_requiredLevel ability
               then (failureResult abilityName playerId
                       (''Requires level '' @ toString (a_requiredLevel ability))
                       (a_auraCost ability), s)
               else if p_aura player < a_auraCost ability
               then (failureResult abilityName playerId ''Not enough aura'' (a_auraCost ability), s)
               else if isOnCooldown now playerId abilityName s
               then (let remainingTime = getRemainingCooldown now playerId abilityName s
                     in (failureResult abilityName playerId
                           (''Ability on cooldown ('' @ toString remainingTime @ ''ms remaining)'')
                           (a_auraCost ability), s))
               else
                 (let totalDamage =
                        a_damage ability + \<lfloor>real_of_int (p_hiddenStrength player) * 0.1\<rfloor>;
                      s1 = updatePlayer playerId
                             (noPatch\<lparr>u_aura := Some (p_aura player - a_auraCost ability)\<rparr>) s;
                      s2 = setCooldown now playerId abilityName (a_cooldown ability) s1;
                      s3 = handleTarget now rnd uuid player totalDamage targetId s2
                  in (\<lparr> r_success = True, r_damage = Some totalDamage,
                        r_abilityUsed = abilityName, r_playerId = playerId,
                        r_targetId = targetId,
                        r_message = ''Used '' @ a_name ability @ '' for '' @
                                    toString totalDamage @ '' damage'',
                        r_auraCost = a_auraCost ability \<rparr>, s3))))"

subsection \<open>Regeneration\<close>

text \<open>
  The body of the loop of the regeneration interval, for one player of the snapshot
  \<^verbatim>\<open>onlinePlayers\<close>, and the tick itself.
\<close>

definition regenOne :: "player \<Rightarrow> world \<Rightarrow> world" where
  "regenOne player s =
     (let healthRegen = min (p_maxHealth player)
                            (p_health player + \<lfloor>real_of_int (p_maxHealth player) * 0.01\<rfloor>);
          auraRegen = min (p_maxAura player)
                          (p_aura player + \<lfloor>real_of_int (p_maxAura player) * 0.02\<rfloor>)
      in if healthRegen \<noteq> p_health player \<or> auraRegen \<noteq> p_aura player
         then updatePlayer (p_id player)
                (noPatch\<lparr>u_health := Some healthRegen, u_aura := Some auraRegen\<rparr>) s
         else s)"

definition regenerationTick :: "world \<Rightarrow> world" where
  "regenerationTick s = fold regenOne (getOnlinePlayers s) s"

subsection \<open>Monster spawning\<close>

definition monsterTypes :: "string list" where
  "monsterTypes = [''Stone Golem'', ''Shadow Wolf'', ''Crystal Spider'', ''Wind Elemental'']"

text \<open>
  \<^verbatim>\<open>spawnMonster\<close> draws the type, then \<open>x\<close>, then \<open>z\<close>. An index outside the
  array gives \<^verbatim>\<open>undefined\<close> for the name, which the not-null column rejects. The
  arithmetic is that of doubles.
\<close>

definition spawnMonster ::
  "(nat \<Rightarrow> real) \<Rightarrow> string \<Rightarrow> string \<Rightarrow> int \<Rightarrow> real \<Rightarrow> world \<Rightarrow> world option" where
  "spawnMonster rnd newId zone level difficultyMultiplier s =
     (let i = \<lfloor>dmul (rnd 0) (jsNumber (int (length monsterTypes)))\<rfloor>
      in if i < 0 \<or> int (length monsterTypes) \<le> i then None
         else (let randomType = monsterTypes ! nat i;
                   baseHealth = dmul (jsNumber level) 100;
                   scaledHealth = \<lfloor>dmul baseHealth difficultyMultiplier\<rfloor>;
                   x = dsub (dmul (rnd 1) 200) 100;
                   z = dsub (dmul (rnd 2) 200) 100
               in createMonster newId
                    \<lparr> m_id = [], m_name = randomType, m_level = level,
                      m_health = scaledHealth, m_maxHealth = scaledHealth,
                      m_positionX = x, m_positionY = 0, m_positionZ = z, m_zone = zone,
                      m_difficultyMultiplier = difficultyMultiplier, m_isAlive = True \<rparr> s))"

text \<open>
  The spawning interval; a failure inside is caught and logged. The sum of the rebirth
  cycles is the \<^verbatim>\<open>reduce\<close> from 0, and the level is the sum of two small integers.
\<close>

definition spawnerTick :: "(nat \<Rightarrow> real) \<Rightarrow> string \<Rightarrow> world \<Rightarrow> world" where
  "spawnerTick rnd newId s =
     (let onlinePlayers = getOnlinePlayers s
      in if length onlinePlayers > 0
         then (let avgRebirthCycle =
                     ddiv (foldl (\<lambda>sum p. dadd sum (jsNumber (p_rebirthCycle p))) 0 onlinePlayers)
                          (jsNumber (int (length onlinePlayers)));
                   difficultyMultiplier = dadd 1 (dmul avgRebirthCycle (toDouble 0.5));
                   ms = getMonstersInZone ''selha_latna'' s;
                   maxMonsters = min 20 (length onlinePlayers * 3)
               in if length ms < maxMonsters
                  then (let level = \<lfloor>dmul (rnd 0) 90\<rfloor> + 10
                        in case spawnMonster (\<lambda>i. rnd (i + 1)) newId ''selha_latna'' level
                                  difficultyMultiplier s of
                             None \<Rightarrow> s
                           | Some s' \<Rightarrow> s')
                  else s)
         else s)"

subsection \<open>Sequences of operations\<close>

text \<open>
  The operations through which the server changes the world, each with what the
  environment chose for it, and the world after a sequence of them.
\<close>

datatype engine_op =
    UseAbility int "nat \<Rightarrow> real" "nat \<Rightarrow> string" string string "string option"
  | RegenerationTick
  | SpawnerTick "nat \<Rightarrow> real" string
  | LootJanitorTick int
  | RebirthRequest string
  | CollectLootRequest int string string string

fun perform :: "engine_op \<Rightarrow> world \<Rightarrow> world" where
  "perform (UseAbility now rnd uuid playerId abilityName targetId) s =
     snd (useAbility now rnd uuid playerId abilityName targetId s)"
| "perform RegenerationTick s = regenerationTick s"
| "perform (SpawnerTick rnd newId) s = spawnerTick rnd newId s"
| "perform (LootJanitorTick now) s = cleanupExpiredLoot now s"
| "perform (RebirthRequest playerId) s = snd (rebirthEndpoint playerId s)"
| "perform (CollectLootRequest now newId playerId lootId) s =
     snd (collectWorldLoot now newId playerId lootId s)"

definition performAll :: "engine_op list \<Rightarrow> world \<Rightarrow> world" where
  "performAll ops s = fold perform ops s"

section \<open>Vocabulary of the properties\<close>

text \<open>The invariant of the vitals of a player.\<close>

definition vitalsInBounds :: "player \<Rightarrow> bool" where
  "vitalsInBounds p =
     (0 \<le> p_health p \<and> p_health p \<le> p_maxHealth p \<and> 0 \<le> p_aura p \<and> p_aura p \<le> p_maxAura p)"

text \<open>The level that the specification derives from an amount of experience.\<close>

definition specLevel :: "int \<Rightarrow> int" where
  "specLevel newExperience = \<lfloor>real_of_int newExperience / 100\<rfloor> + 1"

text \<open>The guard of the level-up in \<^verbatim>\<open>awardExperience\<close>.\<close>

definition levelsUp :: "player \<Rightarrow> int \<Rightarrow> bool" where
  "levelsUp player expAmount =
     (p_level player < specLevel (p_experience player + expAmount) \<and>
      specLevel (p_experience player + expAmount) \<le> 100)"

text \<open>The experience the specification grants for a kill, over the reals.\<close>

definition specExpGain :: "int \<Rightarrow> int \<Rightarrow> int" where
  "specExpGain monsterLevel rebirthCycle =
     \<lfloor>real_of_int monsterLevel * 10 * (1 + real_of_int rebirthCycle * 0.1)\<rfloor>"

text \<open>The damage of an ability in the hands of a player, and the update that pays for it.\<close>

definition totalDamageOf :: "player \<Rightarrow> ability_definition \<Rightarrow> int" where
  "totalDamageOf player ability =
     a_damage ability + \<lfloor>real_of_int (p_hiddenStrength player) * 0.1\<rfloor>"

definition auraPatch :: "player \<Rightarrow> ability_definition \<Rightarrow> player_patch" where
  "auraPatch player ability = noPatch\<lparr>u_aura := Some (p_aura player - a_auraCost ability)\<rparr>"

text \<open>
  A target id names a valid monster for a player: a monster that is alive, in the combat
  zone and within range 50.
\<close>

definition namesValidMonster :: "player \<Rightarrow> string \<Rightarrow> world \<Rightarrow> bool" where
  "namesValidMonster player tid s =
     (\<exists>m \<in> set (monsters s). m_id m = tid \<and> m_isAlive m \<and> m_zone m = ''selha_latna'' \<and>
                              isInRange player m 50)"

text \<open>The player after a rebirth, as the specification lists the fields.\<close>

definition reborn :: "player \<Rightarrow> player" where
  "reborn p =
     p\<lparr> p_level := 1, p_experience := 0, p_rebirthCycle := p_rebirthCycle p + 1,
        p_health := 1000, p_maxHealth := 1000, p_aura := 500, p_maxAura := 500,
        p_hiddenStrength := p_hiddenStrength p + p_level p * 10,
        p_hiddenAgility := p_hiddenAgility p + p_level p * 10,
        p_hiddenIntelligence := p_hiddenIntelligence p + p_level p * 10,
        p_hiddenEndurance := p_hiddenEndurance p + p_level p * 10 \<rparr>"

text \<open>
  Regeneration as the specification words it: health grows by \<open>\<lfloor>maxHealth * 0.01\<rfloor>\<close>, aura
  by \<open>\<lfloor>maxAura * 0.02\<rfloor>\<close>, each capped at its maximum; the write for a player; and whether
  the regenerated values differ from the current ones.
\<close>

definition regenHealth :: "player \<Rightarrow> int" where
  "regenHealth p = min (p_maxHealth p) (p_health p + \<lfloor>real_of_int (p_maxHealth p) * 0.01\<rfloor>)"

definition regenAura :: "player \<Rightarrow> int" where
  "regenAura p = min (p_maxAura p) (p_aura p + \<lfloor>real_of_int (p_maxAura p) * 0.02\<rfloor>)"

definition regenChanges :: "player \<Rightarrow> bool" where
  "regenChanges p = (regenHealth p \<noteq> p_health p \<or> regenAura p \<noteq> p_aura p)"

definition regenWrite :: "player \<Rightarrow> db_write" where
  "regenWrite p =
     UpdatePlayer (p_id p) (noPatch\<lparr>u_health := Some (regenHealth p), u_aura := Some (regenAura p)\<rparr>)"

text \<open>The effect of one player's turn in a regeneration tick on a row of the table.\<close>

definition regenRow :: "player list \<Rightarrow> player \<Rightarrow> player" where
  "regenRow qs p =
     (case find (\<lambda>q. p_id q = p_id p) qs of
        None \<Rightarrow> p
      | Some q \<Rightarrow> if regenChanges q then p\<lparr>p_health := regenHealth q, p_aura := regenAura q\<rparr> else p)"

text \<open>No row of the monster table with this id is alive, and the id is taken.\<close>

definition buried :: "string \<Rightarrow> world \<Rightarrow> bool" where
  "buried tid s =
     (tid \<in> set (map m_id (monsters s)) \<and>
      (\<forall>m \<in> set (monsters s). m_id m = tid \<longrightarrow> \<not> m_isAlive m))"

section \<open>Example worlds\<close>

text \<open>
  Alice is the player of the specification's scenario: level 60 with 500 aura, next to
  a golem with 250 health. Bob has too little aura for any ability, Carol has reached
  level 100, Dave can pay for exactly one Stone Bullet, and the veteran is one kill
  away from experience 10000.
\<close>

definition alice :: player where
  "alice = (newPlayer ''alice-id'' ''alice'')
     \<lparr> p_level := 60, p_experience := 5950, p_health := 3100, p_maxHealth := 4000,
       p_aura := 500, p_maxAura := 2000, p_isOnline := True \<rparr>"

definition bob :: player where
  "bob = (newPlayer ''bob-id'' ''bob'') \<lparr> p_aura := 40, p_isOnline := True \<rparr>"

definition carol :: player where
  "carol = (newPlayer ''carol-id'' ''carol'')
     \<lparr> p_level := 100, p_experience := 9950, p_health := 6000, p_maxHealth := 6000,
       p_aura := 3000, p_maxAura := 3000 \<rparr>"

definition dave :: player where
  "dave = (newPlayer ''dave-id'' ''dave'') \<lparr> p_aura := 60, p_isOnline := True \<rparr>"

definition veteran :: player where
  "veteran = (newPlayer ''veteran-id'' ''veteran'')
     \<lparr> p_level := 99, p_experience := 9890, p_health := 5950, p_maxHealth := 5950,
       p_aura := 2975, p_maxAura := 2975 \<rparr>"

definition golem :: monster where
  "golem =
     \<lparr> m_id = ''golem-1'', m_name = ''Stone Golem'', m_level = 20, m_health = 250,
       m_maxHealth = 2000, m_positionX = 3, m_positionY = 0, m_positionZ = 4,
       m_zone = ''selha_latna'', m_difficultyMultiplier = 1, m_isAlive = True \<rparr>"

definition staleLoot :: world_loot where
  "staleLoot =
     \<lparr> wl_id = ''loot-1'', wl_itemId = ''bone-id'', wl_quantity = 2,
       wl_positionX = 1, wl_positionY = 0, wl_positionZ = 1, wl_zone = ''selha_latna'',
       wl_droppedBy = Some ''alice-id'', wl_spawnedAt = Some 1000, wl_expiresAt = Some 301000 \<rparr>"

definition exampleWorld :: world where
  "exampleWorld =
     \<lparr> players = [alice, bob, carol, dave, veteran],
       monsters = [golem],
       lootItems = [\<lparr> li_id = ''bone-id'', li_name = ''Monster Bone'', li_type = ''material'' \<rparr>,
                    \<lparr> li_id = ''meat-id'', li_name = ''Monster Meat'', li_type = ''consumable'' \<rparr>],
       playerInventory = [],
       worldLoot = [staleLoot],
       playerCooldowns = Map.empty,
       writes = [] \<rparr>"

text \<open>
  Erin is in her fifth life (rebirth cycle 4), next to a wolf of level 17 with 300
  health left.
\<close>

definition erin :: player where
  "erin = (newPlayer ''erin-id'' ''erin'')
     \<lparr> p_level := 60, p_experience := 5900, p_rebirthCycle := 4, p_health := 4000,
       p_maxHealth := 4000, p_aura := 2000, p_maxAura := 2000, p_hiddenStrength := 4000,
       p_hiddenAgility := 4000, p_hiddenIntelligence := 4000, p_hiddenEndurance := 4000,
       p_isOnline := True \<rparr>"

definition wolf :: monster where
  "wolf =
     \<lparr> m_id = ''wolf-1'', m_name = ''Shadow Wolf'', m_level = 17, m_health = 300,
       m_maxHealth = 1700, m_positionX = 6, m_positionY = 0, m_positionZ = 8,
       m_zone = ''selha_latna'', m_difficultyMultiplier = 1, m_isAlive = True \<rparr>"

definition arenaWorld :: world where
  "arenaWorld =
     \<lparr> players = [erin], monsters = [wolf], lootItems = [], playerInventory = [],
       worldLoot = [], playerCooldowns = Map.empty, writes = [] \<rparr>"

text \<open>
  Erin online with two players in their first life, and no monster yet: the rebirth
  cycles of the three sum to 4.
\<close>

definition squadWorld :: world where
  "squadWorld =
     \<lparr> players = [erin, bob, dave], monsters = [], lootItems = [], playerInventory = [],
       worldLoot = [], playerCooldowns = Map.empty, writes = [] \<rparr>"

text \<open>Choices of the environment for the examples.\<close>

definition rnd0 :: "nat \<Rightarrow> real" where
  "rnd0 i = 0"

definition uuid0 :: "nat \<Rightarrow> string" where
  "uuid0 i = ''loot-'' @ digitsOf (i + 2)"

section \<open>Auxiliary lemmas\<close>

subsection \<open>Arithmetic\<close>

text \<open>The floors of the source on integers, and the range test without the square root.\<close>

lemma floor_tenth: "\<lfloor>real_of_int x * 0.1\<rfloor> = x div 10"
proof -
  have "real_of_int x * 0.1 = real_of_int x / real_of_int 10" by simp
  then show ?thesis by (simp only: floor_divide_of_int_eq)
qed

lemma floor_hundredth: "\<lfloor>real_of_int x * 0.01\<rfloor> = x div 100"
proof -
  have "real_of_int x * 0.01 = real_of_int x / real_of_int 100" by simp
  then show ?thesis by (simp only: floor_divide_of_int_eq)
qed

lemma floor_fiftieth: "\<lfloor>real_of_int x * 0.02\<rfloor> = x div 50"
proof -
  have "real_of_int x * 0.02 = real_of_int x / real_of_int 50" by simp
  then show ?thesis by (simp only: floor_divide_of_int_eq)
qed

lemma floor_div_hundred: "\<lfloor>real_of_int x / 100\<rfloor> = x div 100"
proof -
  have "real_of_int x / 100 = real_of_int x / real_of_int 100" by simp
  then show ?thesis by (simp only: floor_divide_of_int_eq)
qed

lemma floor_times_ten: "\<lfloor>real_of_int x * 10\<rfloor> = x * 10"
proof -
  have "real_of_int x * 10 = real_of_int (x * 10)" by simp
  then show ?thesis by (simp only: floor_of_int)
qed

lemma isInRange_squares:
  assumes "0 \<le> rng"
  shows "isInRange player m rng =
           ((p_positionX player - m_positionX m) * (p_positionX player - m_positionX m) +
            (p_positionY player - m_positionY m) * (p_positionY player - m_positionY m) +
            (p_positionZ player - m_positionZ m) * (p_positionZ player - m_positionZ m)
            \<le> rng * rng)"
proof -
  have "(sqrt x \<le> rng) = (x \<le> rng * rng)" for x
    using assms by (metis abs_of_nonneg real_sqrt_abs2 real_sqrt_le_iff)
  then show ?thesis by (simp add: isInRange_def Let_def)
qed

subsection \<open>Doubles\<close>

text \<open>
  The exponent is the right one, rounding moves a number by at most half a unit, and
  an integer below \<open>2 ^ 53\<close> is a double.
\<close>

lemma pow2_powr: "pow2 k = 2 powr real_of_int k"
  by (simp add: pow2_def powr_int)

lemma pow2_pos: "0 < pow2 k"
  by (simp add: pow2_powr)

lemma pow2_less_iff: "pow2 a < pow2 b \<longleftrightarrow> a < b"
  by (simp add: pow2_powr)

lemma binade_bounds:
  assumes "x \<noteq> 0"
  shows "pow2 (binade x) \<le> \<bar>x\<bar> \<and> \<bar>x\<bar> < pow2 (binade x + 1)"
proof (cases "1 \<le> \<bar>x\<bar>")
  case True
  let ?n = "\<lfloor>\<bar>x\<bar>\<rfloor>"
  have n: "0 < ?n" using True by simp
  from bitlen_bounds [OF n] have lo: "2 ^ nat (bitlen ?n - 1) \<le> ?n" and hi: "?n < 2 ^ nat (bitlen ?n)"
    by simp_all
  have bl: "1 \<le> bitlen ?n" using n by (simp add: bitlen_alt_def)
  have "(2::real) ^ nat (bitlen ?n - 1) = real_of_int (2 ^ nat (bitlen ?n - 1))" by simp
  also have "\<dots> \<le> real_of_int ?n" using lo by (simp only: of_int_le_iff)
  also have "\<dots> \<le> \<bar>x\<bar>" by (rule of_int_floor_le)
  finally have a: "pow2 (bitlen ?n - 1) \<le> \<bar>x\<bar>"
    using bl by (simp add: pow2_def)
  have "?n + 1 \<le> 2 ^ nat (bitlen ?n)" using hi by simp
  then have "real_of_int (?n + 1) \<le> real_of_int (2 ^ nat (bitlen ?n))"
    by (simp only: of_int_le_iff)
  then have up: "real_of_int ?n + 1 \<le> 2 ^ nat (bitlen ?n)" by simp
  have "\<bar>x\<bar> < real_of_int ?n + 1" by (rule real_of_int_floor_add_one_gt)
  with up have "\<bar>x\<bar> < 2 ^ nat (bitlen ?n)" by linarith
  then have b: "\<bar>x\<bar> < pow2 (bitlen ?n - 1 + 1)"
    using bl by (simp add: pow2_def)
  from a b True show ?thesis by (simp add: binade_def)
next
  case False
  let ?q = "1 / \<bar>x\<bar>"
  let ?c = "nat \<lceil>?q\<rceil>"
  let ?k = "ceillog2 ?c"
  have x: "0 < \<bar>x\<bar>" "\<bar>x\<bar> < 1" using assms False by simp_all
  have q: "1 < ?q" using x by simp
  have cq: "real ?c = real_of_int \<lceil>?q\<rceil>" using q by (simp; linarith?)
  have c2: "2 \<le> ?c" using q by linarith
  have "real ?c \<le> real (2 ^ ?k)"
    using le_two_power_ceillog2 [of ?c] by (simp only: of_nat_le_iff)
  then have le1: "real ?c \<le> 2 ^ ?k" by simp
  have "?q \<le> real_of_int \<lceil>?q\<rceil>" by (rule le_of_int_ceiling)
  with cq le1 have "?q \<le> 2 ^ ?k" by linarith
  then have lo: "1 / 2 ^ ?k \<le> \<bar>x\<bar>"
    using x by (simp add: field_simps)
  have k1: "1 \<le> ?k"
  proof (rule ccontr)
    assume "\<not> 1 \<le> ?k"
    then have k0: "?k = 0" by simp
    have "?c \<le> 2 ^ ?k" by (rule le_two_power_ceillog2)
    then have "?c \<le> 1" unfolding k0 power_0 .
    with c2 show False by linarith
  qed
  then obtain j where j: "?k = Suc j" by (cases ?k) simp_all
  have cpos: "0 < ?c" using c2 by linarith
  have "2 ^ ?k < 2 * ?c" by (rule two_power_ceillog2_gt [OF cpos])
  then have "2 ^ j < ?c" using j by simp
  then have "int (2 ^ j) < int ?c" by (simp only: of_nat_less_iff)
  moreover have "int ?c = \<lceil>?q\<rceil>" using q by (simp; linarith?)
  ultimately have "int (2 ^ j) \<le> \<lceil>?q\<rceil> - 1" by linarith
  then have "real_of_int (int (2 ^ j)) \<le> real_of_int (\<lceil>?q\<rceil> - 1)"
    by (simp only: of_int_le_iff)
  then have low: "2 ^ j \<le> real_of_int \<lceil>?q\<rceil> - 1" by simp
  have "real_of_int \<lceil>?q\<rceil> - 1 < ?q" using ceiling_correct [of ?q] by linarith
  with low have "2 ^ j < ?q" by linarith
  then have hi: "\<bar>x\<bar> < 1 / 2 ^ j"
    using x by (simp add: field_simps)
  have e: "binade x = - int ?k" using False by (simp add: binade_def)
  have p1: "pow2 (- int ?k) = 1 / 2 ^ ?k" using k1 by (simp add: pow2_def)
  have p2: "pow2 (- int ?k + 1) = 1 / 2 ^ j" using j by (simp add: pow2_def)
  show ?thesis unfolding e p1 p2 using lo hi by simp
qed

lemma roundEven_of_int: "roundEven (real_of_int m) = m"
  by (simp add: roundEven_def)

lemma toDouble_of_int:
  assumes "\<bar>n\<bar> < 2 ^ 53"
  shows "toDouble (real_of_int n) = real_of_int n"
proof (cases "n = 0")
  case True
  then show ?thesis by (simp add: toDouble_def)
next
  case False
  let ?x = "real_of_int n"
  let ?e = "binade ?x"
  have nz: "?x \<noteq> 0" using False by simp
  have one: "1 \<le> \<bar>?x\<bar>" using False by (simp flip: of_int_abs)
  have e0: "0 \<le> ?e"
    using one bitlen_bounds [of "\<lfloor>\<bar>?x\<bar>\<rfloor>"] by (simp add: binade_def bitlen_alt_def)
  have "\<bar>?x\<bar> < pow2 53"
    using assms by (simp add: pow2_def flip: of_int_abs)
  with binade_bounds [OF nz] have "pow2 ?e < pow2 53" by linarith
  then have e52: "?e \<le> 52" by (simp add: pow2_less_iff)
  let ?j = "nat (52 - ?e)"
  have m: "max ?e (- 1022) - 52 = - int ?j" using e0 e52 by simp
  have u: "pow2 (- int ?j) = 1 / 2 ^ ?j" by (simp add: pow2_def)
  have "?x / (1 / 2 ^ ?j) = real_of_int (n * 2 ^ ?j)" by simp
  then have "roundEven (?x / (1 / 2 ^ ?j)) = n * 2 ^ ?j"
    by (simp only: roundEven_of_int)
  then show ?thesis
    using nz unfolding toDouble_def Let_def m u by simp
qed

lemma roundEven_nearest: "\<bar>real_of_int (roundEven y) - y\<bar> \<le> 1 / 2"
  by (simp add: roundEven_def Let_def; linarith?)

text \<open>
  The award of a kill for the inputs of the examples, against the value over the reals:
  they agree in the first life and differ by one for a wolf of level 17 in the fifth.
\<close>

lemma killExperience_values:
  "killExperience 20 0 = 200"
  "killExperience 17 4 = 237"
  "killExperience 10 13 = 229"
  "killExperience 5 13 = 114"
  by code_simp+

lemma specExpGain_values:
  "specExpGain 20 0 = 200"
  "specExpGain 17 4 = 238"
  "specExpGain 10 13 = 230"
  "specExpGain 5 13 = 115"
  by (simp_all add: specExpGain_def)

text \<open>
  In the first life the award is exact: it is ten times the level of the monster.
\<close>

lemma killExperience_first_life:
  assumes "\<bar>monsterLevel\<bar> * 10 < 2 ^ 53"
  shows "killExperience monsterLevel 0 = monsterLevel * 10"
proof -
  have l: "\<bar>monsterLevel\<bar> < 2 ^ 53" using assms by linarith
  have t: "\<bar>monsterLevel * 10\<bar> < 2 ^ 53" using assms by (simp add: abs_mult)
  have one: "toDouble 1 = 1" using toDouble_of_int [of 1] by simp
  have zero: "toDouble 0 = 0" by (simp add: toDouble_def)
  have "dmul (jsNumber monsterLevel) 10 = real_of_int (monsterLevel * 10)"
    using toDouble_of_int [OF l] toDouble_of_int [OF t] by (simp add: dmul_def jsNumber_def)
  moreover have "dadd 1 (dmul (jsNumber 0) (toDouble 0.1)) = 1"
    by (simp add: dadd_def dmul_def jsNumber_def zero one)
  ultimately have "killExperience monsterLevel 0 =
      \<lfloor>toDouble (real_of_int (monsterLevel * 10))\<rfloor>"
    by (simp add: killExperience_def dmul_def)
  then show ?thesis using toDouble_of_int [OF t] by (simp add: floor_times_ten)
qed

text \<open>
  The spawner with three players online whose rebirth cycles sum to 4, drawing a monster
  of level 12: the multiplier is the double below \<open>5/3\<close>, which prints as
  \<^verbatim>\<open>1.6666666666666665\<close>, and the health is 1999, not 2000.
\<close>

lemma spawner_health_rounds_down:
  "\<lfloor>dmul (dmul (jsNumber 12) 100)
          (dadd 1 (dmul (ddiv (jsNumber 4) (jsNumber 3)) (toDouble 0.5)))\<rfloor> = 1999"
  by code_simp

lemma spawnerTick_squad:
  "monsters (spawnerTick (\<lambda>i. 3 / 100) ''m-1'' squadWorld) =
     [\<lparr> m_id = ''m-1'', m_name = ''Stone Golem'', m_level = 12, m_health = 1999,
        m_maxHealth = 1999, m_positionX = - 94, m_positionY = 0, m_positionZ = - 94,
        m_zone = ''selha_latna'',
        m_difficultyMultiplier = 3752999689475413 / 2251799813685248, m_isAlive = True \<rparr>]"
proof -
  have online: "getOnlinePlayers squadWorld = [erin, bob, dave]"
    by (simp add: getOnlinePlayers_def squadWorld_def erin_def bob_def dave_def newPlayer_def)
  have cycles: "p_rebirthCycle erin = 4" "p_rebirthCycle bob = 0" "p_rebirthCycle dave = 0"
    by (simp_all add: erin_def bob_def dave_def newPlayer_def)
  have none: "getMonstersInZone ''selha_latna'' squadWorld = []" "monsters squadWorld = []"
    by (simp_all add: getMonstersInZone_def squadWorld_def)
  have average:
    "ddiv (dadd (dadd (dadd 0 (jsNumber 4)) (jsNumber 0)) (jsNumber 0)) (jsNumber 3) =
       toDouble (4 / 3)"
    by code_simp
  have multiplier:
    "dadd 1 (dmul (toDouble (4 / 3)) (toDouble (1 / 2))) = 3752999689475413 / 2251799813685248"
    by code_simp
  have level: "\<lfloor>dmul (3 / 100) 90\<rfloor> + 10 = 12"
    by code_simp
  have index: "\<lfloor>dmul (3 / 100) (jsNumber 4)\<rfloor> = 0"
    by code_simp
  have health:
    "\<lfloor>dmul (dmul (jsNumber 12) 100) (3752999689475413 / 2251799813685248)\<rfloor> = 1999"
    by code_simp
  have position: "dsub (dmul (3 / 100) 200) 100 = - 94"
    by code_simp
  show ?thesis
    unfolding spawnerTick_def Let_def online none
    by (simp add: cycles average multiplier level spawnMonster_def Let_def index health
          position monsterTypes_def createMonster_def none)
qed

subsection \<open>Rows and tables\<close>

text \<open>Looking a row up by its key, before and after an update.\<close>

lemma find_map_same_key:
  assumes "\<And>x. key (f x) = key x"
  shows "find (\<lambda>x. key x = k) (map f xs) = map_option f (find (\<lambda>x. key x = k) xs)"
  using assms by (induction xs) auto

lemma find_id_None: "k \<notin> p_id ` set qs \<Longrightarrow> find (\<lambda>q. p_id q = k) qs = None"
  by (auto simp: find_None_iff)

lemma find_own_row:
  assumes "distinct (map p_id ps)" and "p \<in> set ps"
  shows "find (\<lambda>q. p_id q = p_id p) (filter P ps) = (if P p then Some p else None)"
proof -
  have inj: "inj_on p_id (set ps)" using assms(1) by (simp add: distinct_map)
  have uniq: "\<And>q. q \<in> set ps \<Longrightarrow> p_id q = p_id p \<Longrightarrow> q = p"
    using inj assms(2) by (auto dest: inj_onD)
  show ?thesis
  proof (cases "P p")
    case True
    obtain q where q: "find (\<lambda>q. p_id q = p_id p) (filter P ps) = Some q"
      using True assms(2) by (cases "find (\<lambda>q. p_id q = p_id p) (filter P ps)")
        (auto simp: find_None_iff)
    then have "q \<in> set ps" "p_id q = p_id p"
      by (auto simp: find_Some_iff dest: nth_mem)
    with uniq q True show ?thesis by simp
  next
    case False
    then have "find (\<lambda>q. p_id q = p_id p) (filter P ps) = None"
      using uniq by (auto simp: find_None_iff)
    with False show ?thesis by simp
  qed
qed

lemma find_unique:
  assumes "x \<in> set xs" and "R x" and "\<forall>y \<in> set xs. R y \<longrightarrow> y = x"
  shows "find R xs = Some x"
proof (cases "find R xs")
  case None
  with assms(1,2) show ?thesis by (auto simp: find_None_iff)
next
  case (Some y)
  then have "y \<in> set xs" "R y" by (auto simp: find_Some_iff dest: nth_mem)
  with assms(3) Some show ?thesis by simp
qed

lemma applyPatch_id [simp]: "p_id (applyPatch u p) = p_id p"
  by (simp add: applyPatch_def)

lemma applyPatch_auraPatch:
  "applyPatch (auraPatch player ability) q = q\<lparr>p_aura := p_aura player - a_auraCost ability\<rparr>"
  by (simp add: applyPatch_def auraPatch_def noPatch_def orKeep_def)

lemma getPlayer_updatePlayer:
  "getPlayer pid (updatePlayer pid' u s) =
     map_option (\<lambda>p. if p_id p = pid' then applyPatch u p else p) (getPlayer pid s)"
  unfolding getPlayer_def updatePlayer_def
  by (simp add: find_map_same_key [where key = p_id])

lemma getPlayer_id: "getPlayer pid s = Some p \<Longrightarrow> p_id p = pid"
  unfolding getPlayer_def by (auto simp: find_Some_iff)

lemma getPlayer_updatePlayer_other:
  assumes "other \<noteq> pid"
  shows "getPlayer other (updatePlayer pid u s) = getPlayer other s"
proof (cases "getPlayer other s")
  case None
  then show ?thesis by (simp add: getPlayer_updatePlayer)
next
  case (Some q)
  then have "p_id q = other" by (rule getPlayer_id)
  with Some assms show ?thesis by (simp add: getPlayer_updatePlayer)
qed

lemma getPlayer_mem: "getPlayer pid s = Some p \<Longrightarrow> p \<in> set (players s)"
  unfolding getPlayer_def by (auto simp: find_Some_iff)

lemma getPlayer_cong: "players a = players b \<Longrightarrow> getPlayer pid a = getPlayer pid b"
  by (simp add: getPlayer_def)

lemma own_row:
  assumes "distinct (map p_id (players s))" and "getPlayer pid s = Some player"
    and "q \<in> set (players s)" and "p_id q = pid"
  shows "q = player"
proof -
  have inj: "inj_on p_id (set (players s))" using assms(1) by (simp add: distinct_map)
  have "player \<in> set (players s)" "p_id player = pid"
    using assms(2) by (simp_all add: getPlayer_mem getPlayer_id)
  with inj assms(3,4) show ?thesis by (auto dest: inj_onD)
qed

subsection \<open>The catalog\<close>

text \<open>What the names of the four abilities normalise and resolve to.\<close>

lemma normalizeName_wire:
  "normalizeName ''stone_bullet'' = ''stone_bullet''"
  "normalizeName ''wind_manipulation'' = ''wind_manipulation''"
  "normalizeName ''ground_dig_up'' = ''ground_dig_up''"
  "normalizeName ''aura_release'' = ''aura_release''"
  by code_simp+

lemma normalizeName_display:
  "normalizeName ''Stone Bullet'' = ''stone_bullet''"
  "normalizeName ''Wind Manipulation'' = ''wind_manipulation''"
  "normalizeName ''Ground Dig-Up'' = ''ground_dig-up''"
  "normalizeName ''Aura Release'' = ''aura_release''"
  by code_simp+

lemma abilities_keys:
  "abilities ''stone_bullet'' = Some stone_bullet"
  "abilities ''wind_manipulation'' = Some wind_manipulation"
  "abilities ''ground_dig_up'' = Some ground_dig_up"
  "abilities ''aura_release'' = Some aura_release"
  by (simp_all add: abilities_def catalog_def)

lemma resolveAbility_three_display_names:
  "resolveAbility ''Stone Bullet'' = resolveAbility ''stone_bullet''"
  "resolveAbility ''Wind Manipulation'' = resolveAbility ''wind_manipulation''"
  "resolveAbility ''Aura Release'' = resolveAbility ''aura_release''"
  by (simp_all add: resolveAbility_def normalizeName_wire normalizeName_display)

lemma resolveAbility_normalised:
  "normalizeName a = normalizeName b \<Longrightarrow> resolveAbility a = resolveAbility b"
  by (simp add: resolveAbility_def)

lemma abilities_cases:
  assumes "abilities k = Some a"
  shows "a = stone_bullet \<or> a = wind_manipulation \<or> a = ground_dig_up \<or> a = aura_release"
  using assms by (auto simp: abilities_def catalog_def split: if_splits)

lemma abilities_positive:
  assumes "abilities k = Some a"
  shows "0 < a_auraCost a \<and> 1 \<le> a_requiredLevel a \<and> 0 < a_cooldown a \<and> 0 < a_damage a"
  using abilities_cases [OF assms]
  by (auto simp: stone_bullet_def wind_manipulation_def ground_dig_up_def aura_release_def)

subsection \<open>Regeneration\<close>

text \<open>One turn of the loop, then the loop.\<close>

lemma regenOne_alt:
  "regenOne q s =
     (if regenChanges q
      then updatePlayer (p_id q)
             (noPatch\<lparr>u_health := Some (regenHealth q), u_aura := Some (regenAura q)\<rparr>) s
      else s)"
  by (simp add: regenOne_def regenChanges_def regenHealth_def regenAura_def Let_def)

lemma regenOne_players:
  "players (regenOne q s) =
     map (\<lambda>p. if p_id p = p_id q \<and> regenChanges q
              then p\<lparr>p_health := regenHealth q, p_aura := regenAura q\<rparr> else p) (players s)"
  by (simp add: regenOne_alt updatePlayer_def applyPatch_def noPatch_def orKeep_def)

lemma regenOne_rest:
  "monsters (regenOne q s) = monsters s"
  "lootItems (regenOne q s) = lootItems s"
  "playerInventory (regenOne q s) = playerInventory s"
  "worldLoot (regenOne q s) = worldLoot s"
  "playerCooldowns (regenOne q s) = playerCooldowns s"
  by (simp_all add: regenOne_alt updatePlayer_def)

lemma regenOne_writes:
  "writes (regenOne q s) = writes s @ (if regenChanges q then [regenWrite q] else [])"
  by (simp add: regenOne_alt updatePlayer_def regenWrite_def)

lemma fold_regenOne_rest:
  "monsters (fold regenOne qs s) = monsters s \<and>
   lootItems (fold regenOne qs s) = lootItems s \<and>
   playerInventory (fold regenOne qs s) = playerInventory s \<and>
   worldLoot (fold regenOne qs s) = worldLoot s \<and>
   playerCooldowns (fold regenOne qs s) = playerCooldowns s"
  by (induction qs arbitrary: s) (simp_all add: regenOne_rest)

lemma fold_regenOne_writes:
  "writes (fold regenOne qs s) = writes s @ map regenWrite (filter regenChanges qs)"
  by (induction qs arbitrary: s) (simp_all add: regenOne_writes)

lemma fold_regenOne_players:
  "distinct (map p_id qs) \<Longrightarrow> players (fold regenOne qs s) = map (regenRow qs) (players s)"
proof (induction qs arbitrary: s)
  case Nil
  show ?case by (simp add: regenRow_def)
next
  case (Cons q qs)
  from Cons.prems have fresh: "p_id q \<notin> p_id ` set qs" and d: "distinct (map p_id qs)"
    by simp_all
  have step: "regenRow qs (if p_id p = p_id q \<and> regenChanges q
                           then p\<lparr>p_health := regenHealth q, p_aura := regenAura q\<rparr> else p)
              = regenRow (q # qs) p" for p
  proof (cases "p_id p = p_id q")
    case True
    then have "find (\<lambda>q'. p_id q' = p_id p) qs = None"
      using fresh by (simp add: find_id_None)
    with True show ?thesis by (simp add: regenRow_def)
  next
    case False
    then have "p_id q \<noteq> p_id p" by simp
    with False show ?thesis by (simp add: regenRow_def)
  qed
  have "players (fold regenOne (q # qs) s) = map (regenRow qs) (players (regenOne q s))"
    using Cons.IH [OF d] by simp
  also have "\<dots> = map (regenRow (q # qs)) (players s)"
    by (simp add: regenOne_players step)
  finally show ?case .
qed

lemma regenerationTick_players:
  assumes "distinct (map p_id (players s))"
  shows "players (regenerationTick s) =
           map (\<lambda>p. if p_isOnline p
                    then p\<lparr>p_health := regenHealth p, p_aura := regenAura p\<rparr> else p)
             (players s)"
proof -
  have d: "distinct (map p_id (getOnlinePlayers s))"
    unfolding getOnlinePlayers_def using assms by (rule distinct_map_filter)
  have row: "regenRow (getOnlinePlayers s) p =
               (if p_isOnline p then p\<lparr>p_health := regenHealth p, p_aura := regenAura p\<rparr> else p)"
    if "p \<in> set (players s)" for p
    using find_own_row [OF assms that, of p_isOnline]
    by (simp add: regenRow_def getOnlinePlayers_def regenChanges_def)
  have "players (regenerationTick s) = map (regenRow (getOnlinePlayers s)) (players s)"
    unfolding regenerationTick_def by (rule fold_regenOne_players [OF d])
  also have "\<dots> = map (\<lambda>p. if p_isOnline p
                    then p\<lparr>p_health := regenHealth p, p_aura := regenAura p\<rparr> else p) (players s)"
    by (rule map_cong) (simp_all add: row)
  finally show ?thesis .
qed

lemma regen_bounds:
  assumes "vitalsInBounds p"
  shows "vitalsInBounds (p\<lparr>p_health := regenHealth p, p_aura := regenAura p\<rparr>)"
proof -
  from assms have mh: "0 \<le> p_maxHealth p" and ma: "0 \<le> p_maxAura p"
    by (auto simp: vitalsInBounds_def)
  have "0 \<le> p_maxHealth p div 100" "0 \<le> p_maxAura p div 50"
    using mh ma by (simp_all add: pos_imp_zdiv_nonneg_iff)
  with assms show ?thesis
    by (auto simp: vitalsInBounds_def regenHealth_def regenAura_def floor_hundredth floor_fiftieth)
qed

lemma regenerationTick_bounds:
  assumes "distinct (map p_id (players s))" and "\<forall>p \<in> set (players s). vitalsInBounds p"
  shows "\<forall>p \<in> set (players (regenerationTick s)). vitalsInBounds p"
  using assms(2) by (auto simp: regenerationTick_players [OF assms(1)] regen_bounds)

subsection \<open>Experience and loot\<close>

text \<open>What the award and the loot drop leave alone, and the row after an award.\<close>

lemma createDrops_frame:
  "players (createDrops now rnd uuid k j m killerId drops s) = players s \<and>
   monsters (createDrops now rnd uuid k j m killerId drops s) = monsters s \<and>
   playerCooldowns (createDrops now rnd uuid k j m killerId drops s) = playerCooldowns s \<and>
   playerInventory (createDrops now rnd uuid k j m killerId drops s) = playerInventory s \<and>
   lootItems (createDrops now rnd uuid k j m killerId drops s) = lootItems s"
  by (induction now rnd uuid k j m killerId drops s rule: createDrops.induct)
    (simp_all add: createWorldLoot_def Let_def)

lemma dropLoot_frame:
  "players (dropLoot now rnd uuid m killerId s) = players s \<and>
   monsters (dropLoot now rnd uuid m killerId s) = monsters s \<and>
   playerCooldowns (dropLoot now rnd uuid m killerId s) = playerCooldowns s \<and>
   playerInventory (dropLoot now rnd uuid m killerId s) = playerInventory s \<and>
   lootItems (dropLoot now rnd uuid m killerId s) = lootItems s"
  by (simp add: dropLoot_def Let_def createDrops_frame split: option.splits)

lemma awardExperience_frame:
  "monsters (awardExperience player e s) = monsters s \<and>
   playerCooldowns (awardExperience player e s) = playerCooldowns s"
  by (simp add: awardExperience_def updatePlayer_def Let_def)

lemma awardExperience_players_cong:
  "players a = players b \<Longrightarrow>
   players (awardExperience player e a) = players (awardExperience player e b)"
  by (simp add: awardExperience_def updatePlayer_def Let_def)

lemma awardExperience_players:
  "players (awardExperience player expAmount s) =
     map (\<lambda>q. if p_id q = p_id player
              then (if levelsUp player expAmount
                    then q\<lparr> p_experience := p_experience player + expAmount,
                            p_level := specLevel (p_experience player + expAmount),
                            p_maxHealth := 1000 + specLevel (p_experience player + expAmount) * 50,
                            p_maxAura := 500 + specLevel (p_experience player + expAmount) * 25,
                            p_health := 1000 + specLevel (p_experience player + expAmount) * 50,
                            p_aura := 500 + specLevel (p_experience player + expAmount) * 25 \<rparr>
                    else q\<lparr> p_experience := p_experience player + expAmount \<rparr>)
              else q)
       (players s)"
  by (simp add: awardExperience_def updatePlayer_def Let_def levelsUp_def specLevel_def
        applyPatch_def noPatch_def orKeep_def)

lemma awardExperience_as_update:
  "awardExperience player expAmount s =
     updatePlayer (p_id player)
       (if levelsUp player expAmount
        then noPatch\<lparr> u_experience := Some (p_experience player + expAmount),
                      u_level := Some (specLevel (p_experience player + expAmount)),
                      u_maxHealth := Some (1000 + specLevel (p_experience player + expAmount) * 50),
                      u_maxAura := Some (500 + specLevel (p_experience player + expAmount) * 25),
                      u_health := Some (1000 + specLevel (p_experience player + expAmount) * 50),
                      u_aura := Some (500 + specLevel (p_experience player + expAmount) * 25) \<rparr>
        else noPatch\<lparr>u_experience := Some (p_experience player + expAmount)\<rparr>) s"
  by (simp add: awardExperience_def Let_def levelsUp_def specLevel_def)

lemma getPlayer_awardExperience:
  assumes "getPlayer (p_id player) s = Some q"
  shows "\<exists>q'. getPlayer (p_id player) (awardExperience player e s) = Some q' \<and>
              p_experience q' = p_experience player + e \<and>
              (p_level q' = p_level q \<or> p_level player < p_level q') \<and>
              (\<not> levelsUp player e \<longrightarrow> q' = q\<lparr>p_experience := p_experience player + e\<rparr>)"
proof -
  have "p_id q = p_id player" using assms by (rule getPlayer_id)
  then show ?thesis
    using assms
    by (simp add: awardExperience_def Let_def getPlayer_updatePlayer applyPatch_def noPatch_def
        orKeep_def levelsUp_def specLevel_def)
qed

subsection \<open>Targets\<close>

text \<open>The lookup of the target and the three outcomes of the target block.\<close>

lemma findNearbyMonster_None:
  "\<not> namesValidMonster player tid s \<Longrightarrow> findNearbyMonster player tid s = None"
  unfolding namesValidMonster_def findNearbyMonster_def getMonstersInZone_def
  by (auto simp: find_None_iff)

lemma findNearbyMonster_cong:
  "monsters a = monsters b \<Longrightarrow> findNearbyMonster player tid a = findNearbyMonster player tid b"
  by (simp add: findNearbyMonster_def getMonstersInZone_def)

lemma findNearbyMonster_Some:
  assumes "findNearbyMonster player tid s = Some m"
  shows "m \<in> set (monsters s) \<and> m_id m = tid \<and> m_isAlive m \<and> m_zone m = ''selha_latna'' \<and>
         isInRange player m 50"
proof -
  from assms obtain i where
    i: "i < length (getMonstersInZone ''selha_latna'' s)"
       "getMonstersInZone ''selha_latna'' s ! i = m"
       "m_id m = tid \<and> isInRange player m 50"
    unfolding findNearbyMonster_def by (auto simp: find_Some_iff)
  from i(1,2) have "m \<in> set (getMonstersInZone ''selha_latna'' s)" by (auto dest: nth_mem)
  then show ?thesis using i(3) by (simp add: getMonstersInZone_def)
qed

lemma findNearbyMonster_valid:
  assumes "distinct (map m_id (monsters s))" and "m \<in> set (monsters s)"
    and "m_isAlive m" and "m_zone m = ''selha_latna''" and "isInRange player m 50"
  shows "findNearbyMonster player (m_id m) s = Some m"
proof -
  have inj: "inj_on m_id (set (monsters s))" using assms(1) by (simp add: distinct_map)
  have "find (\<lambda>x. m_id x = m_id m \<and> isInRange player x 50) (getMonstersInZone ''selha_latna'' s) = Some m"
  proof (rule find_unique)
    show "m \<in> set (getMonstersInZone ''selha_latna'' s)"
      using assms(2-4) by (simp add: getMonstersInZone_def)
    show "m_id m = m_id m \<and> isInRange player m 50" using assms(5) by simp
    show "\<forall>y\<in>set (getMonstersInZone ''selha_latna'' s).
            m_id y = m_id m \<and> isInRange player y 50 \<longrightarrow> y = m"
      using inj assms(2) by (auto simp: getMonstersInZone_def dest: inj_onD)
  qed
  then show ?thesis by (simp add: findNearbyMonster_def)
qed

lemma namesValidMonster_cong:
  "monsters s' = monsters s \<Longrightarrow> namesValidMonster player tid s' = namesValidMonster player tid s"
  by (simp add: namesValidMonster_def)

lemma handleTarget_no_target:
  assumes "targetId = None \<or> (\<exists>tid. targetId = Some tid \<and> \<not> namesValidMonster player tid s)"
  shows "handleTarget now rnd uuid player dmg targetId s = s"
  using assms by (auto simp: handleTarget_def findNearbyMonster_None)

lemma handleTarget_kill:
  assumes "findNearbyMonster player tid s = Some m" and "tid \<noteq> []"
    and "m_health m - dmg \<le> 0"
  shows "handleTarget now rnd uuid player dmg (Some tid) s =
           dropLoot now rnd uuid m (p_id player)
             (awardExperience player (killExperience (m_level m) (p_rebirthCycle player))
                (deleteMonster tid (updateMonster tid 0 s)))"
proof -
  have mid: "m_id m = tid" using findNearbyMonster_Some [OF assms(1)] by simp
  have mx: "max 0 (m_health m - dmg) = 0" using assms(3) by simp
  show ?thesis
    using assms(1,2) mid
    by (simp add: handleTarget_def Let_def mx)
qed

lemma handleTarget_cases:
  "handleTarget now rnd uuid player dmg targetId s = s \<or>
   (\<exists>tid h. handleTarget now rnd uuid player dmg targetId s = updateMonster tid h s) \<or>
   (\<exists>tid h e m k. handleTarget now rnd uuid player dmg targetId s =
       dropLoot now rnd uuid m k (awardExperience player e (deleteMonster tid (updateMonster tid h s))))"
proof (cases targetId)
  case None
  then show ?thesis by (simp add: handleTarget_def)
next
  case (Some tid)
  show ?thesis
  proof (cases "tid = [] \<or> findNearbyMonster player tid s = None")
    case True
    with Some show ?thesis by (auto simp: handleTarget_def)
  next
    case False
    then obtain m where m: "findNearbyMonster player tid s = Some m" and ne: "tid \<noteq> []"
      by auto
    show ?thesis
    proof (cases "max 0 (m_health m - dmg) \<le> 0")
      case True
      with Some m ne have
        "handleTarget now rnd uuid player dmg targetId s =
           dropLoot now rnd uuid m (p_id player)
             (awardExperience player
                (killExperience (m_level m) (p_rebirthCycle player))
                (deleteMonster (m_id m) (updateMonster (m_id m) (max 0 (m_health m - dmg)) s)))"
        by (simp add: handleTarget_def Let_def)
      then show ?thesis by blast
    next
      case False
      with Some m ne have
        "handleTarget now rnd uuid player dmg targetId s =
           updateMonster (m_id m) (max 0 (m_health m - dmg)) s"
        by (simp add: handleTarget_def Let_def)
      then show ?thesis by blast
    qed
  qed
qed

lemma handleTarget_cooldowns:
  "playerCooldowns (handleTarget now rnd uuid player dmg targetId s) = playerCooldowns s"
  using handleTarget_cases [of now rnd uuid player dmg targetId s]
  by (auto simp: dropLoot_frame awardExperience_frame deleteMonster_def updateMonster_def)

lemma handleTarget_players:
  "players (handleTarget now rnd uuid player dmg targetId s) = players s \<or>
   (\<exists>e. players (handleTarget now rnd uuid player dmg targetId s) =
         players (awardExperience player e s))"
proof -
  have c: "players (deleteMonster tid (updateMonster tid h s)) = players s" for tid h
    by (simp add: deleteMonster_def updateMonster_def)
  from handleTarget_cases [of now rnd uuid player dmg targetId s]
  show ?thesis
  proof (elim disjE exE)
    fix tid h e m k
    assume "handleTarget now rnd uuid player dmg targetId s =
       dropLoot now rnd uuid m k (awardExperience player e (deleteMonster tid (updateMonster tid h s)))"
    then have "players (handleTarget now rnd uuid player dmg targetId s) =
               players (awardExperience player e s)"
      using awardExperience_players_cong [OF c] by (simp add: dropLoot_frame)
    then show ?thesis by blast
  qed (auto simp: updateMonster_def)
qed

subsection \<open>Ability use\<close>

text \<open>The successful path, the refusals, and the state after the payment.\<close>

lemma useAbility_success:
  assumes "useAbility now rnd uuid playerId abilityName targetId s = (r, s')"
    and "r_success r"
  shows "\<exists>player ability.
           getPlayer playerId s = Some player \<and>
           resolveAbility abilityName = Some ability \<and>
           a_requiredLevel ability \<le> p_level player \<and>
           a_auraCost ability \<le> p_aura player \<and>
           \<not> isOnCooldown now playerId abilityName s \<and>
           r_damage r = Some (totalDamageOf player ability) \<and>
           s' = handleTarget now rnd uuid player (totalDamageOf player ability) targetId
                  (setCooldown now playerId abilityName (a_cooldown ability)
                     (updatePlayer playerId (auraPatch player ability) s))"
  using assms
  by (auto simp: useAbility_def resolveAbility_def failureResult_def Let_def auraPatch_def
        totalDamageOf_def split: option.splits if_splits)

lemma useAbility_failure:
  assumes "useAbility now rnd uuid playerId abilityName targetId s = (r, s')"
    and "\<not> r_success r"
  shows "s' = s"
  using assms
  by (auto simp: useAbility_def failureResult_def Let_def split: option.splits if_splits)

lemma useAbility_passes:
  assumes "getPlayer playerId s = Some player"
    and "resolveAbility abilityName = Some ability"
    and "a_requiredLevel ability \<le> p_level player"
    and "a_auraCost ability \<le> p_aura player"
    and "\<not> isOnCooldown now playerId abilityName s"
  shows "useAbility now rnd uuid playerId abilityName targetId s =
           (\<lparr> r_success = True, r_damage = Some (totalDamageOf player ability),
              r_abilityUsed = abilityName, r_playerId = playerId, r_targetId = targetId,
              r_message = ''Used '' @ a_name ability @ '' for '' @
                          toString (totalDamageOf player ability) @ '' damage'',
              r_auraCost = a_auraCost ability \<rparr>,
            handleTarget now rnd uuid player (totalDamageOf player ability) targetId
              (setCooldown now playerId abilityName (a_cooldown ability)
                 (updatePlayer playerId (auraPatch player ability) s)))"
  using assms
  by (simp add: useAbility_def resolveAbility_def Let_def totalDamageOf_def auraPatch_def)

lemma useAbility_on_cooldown:
  assumes "getPlayer playerId s = Some p"
    and "resolveAbility abilityName = Some ability"
    and "a_requiredLevel ability \<le> p_level p"
    and "playerCooldowns s playerId = Some cds"
    and "cds abilityName = Some cooldownEnd"
    and "cooldownEnd \<noteq> 0" and "now < cooldownEnd"
  shows "useAbility now rnd uuid playerId abilityName targetId s =
           (failureResult abilityName playerId
              (if p_aura p < a_auraCost ability then ''Not enough aura''
               else ''Ability on cooldown ('' @ toString (cooldownEnd - now) @ ''ms remaining)'')
              (a_auraCost ability), s)"
proof -
  have "max 0 (cooldownEnd - now) = cooldownEnd - now" using assms(7) by simp
  with assms show ?thesis
    by (simp add: useAbility_def resolveAbility_def isOnCooldown_def getRemainingCooldown_def
        Let_def)
qed

lemma players_after_payment:
  "players (setCooldown now pid name d (updatePlayer pid (auraPatch player ability) s)) =
     map (\<lambda>q. if p_id q = pid then q\<lparr>p_aura := p_aura player - a_auraCost ability\<rparr> else q)
       (players s)"
  by (simp add: setCooldown_def updatePlayer_def Let_def applyPatch_auraPatch)

lemma getPlayer_after_payment:
  assumes "getPlayer pid s = Some player"
  shows "getPlayer pid (setCooldown now pid name d (updatePlayer pid (auraPatch player ability) s)) =
           Some (player\<lparr>p_aura := p_aura player - a_auraCost ability\<rparr>)"
proof -
  have "getPlayer pid (setCooldown now pid name d (updatePlayer pid (auraPatch player ability) s)) =
        getPlayer pid (updatePlayer pid (auraPatch player ability) s)"
    by (rule getPlayer_cong) (simp add: setCooldown_def Let_def)
  then show ?thesis
    using assms getPlayer_id [OF assms]
    by (simp add: getPlayer_updatePlayer applyPatch_auraPatch)
qed

lemma cooldown_after_payment:
  "\<exists>cds. playerCooldowns (setCooldown now pid name d s) pid = Some cds \<and>
         cds name = Some (now + d)"
  by (simp add: setCooldown_def Let_def)

lemma getPlayer_after_kill:
  assumes gp: "getPlayer playerId s = Some player"
  shows "\<exists>q'. getPlayer playerId
                (dropLoot now rnd uuid m k
                   (awardExperience player e
                      (deleteMonster tid (updateMonster tid h
                         (setCooldown now playerId name d
                            (updatePlayer playerId (auraPatch player ability) s)))))) = Some q' \<and>
              p_experience q' = p_experience player + e \<and>
              (\<not> levelsUp player e \<longrightarrow>
                 q' = player\<lparr>p_aura := p_aura player - a_auraCost ability,
                             p_experience := p_experience player + e\<rparr>)"
proof -
  let ?s2 = "setCooldown now playerId name d (updatePlayer playerId (auraPatch player ability) s)"
  let ?s3 = "deleteMonster tid (updateMonster tid h ?s2)"
  have pid: "p_id player = playerId" using gp by (rule getPlayer_id)
  have ps3: "players ?s3 = players ?s2" by (simp add: deleteMonster_def updateMonster_def)
  have "getPlayer playerId ?s3 = getPlayer playerId ?s2"
    by (rule getPlayer_cong [OF ps3])
  also have "\<dots> = Some (player\<lparr>p_aura := p_aura player - a_auraCost ability\<rparr>)"
    by (rule getPlayer_after_payment [OF gp])
  finally have g3: "getPlayer (p_id player) ?s3 =
                  Some (player\<lparr>p_aura := p_aura player - a_auraCost ability\<rparr>)"
    unfolding pid .
  have "getPlayer playerId (dropLoot now rnd uuid m k (awardExperience player e ?s3)) =
        getPlayer (p_id player) (awardExperience player e ?s3)"
    unfolding pid by (rule getPlayer_cong) (simp add: dropLoot_frame)
  with getPlayer_awardExperience [OF g3, of e] show ?thesis by auto
qed

lemma useAbility_bounds:
  assumes d: "distinct (map p_id (players s))"
    and inv: "\<forall>p \<in> set (players s). vitalsInBounds p"
  shows "\<forall>p \<in> set (players (snd (useAbility now rnd uuid playerId abilityName targetId s))).
           vitalsInBounds p"
proof -
  obtain r s' where run: "useAbility now rnd uuid playerId abilityName targetId s = (r, s')"
    by (cases "useAbility now rnd uuid playerId abilityName targetId s")
  show ?thesis
  proof (cases "r_success r")
    case False
    with run have "s' = s" by (rule useAbility_failure)
    with run inv show ?thesis by simp
  next
    case True
    from useAbility_success [OF run True] obtain player ability where
      gp: "getPlayer playerId s = Some player" and
      ab: "resolveAbility abilityName = Some ability" and
      lvl: "a_requiredLevel ability \<le> p_level player" and
      aura: "a_auraCost ability \<le> p_aura player" and
      s': "s' = handleTarget now rnd uuid player (totalDamageOf player ability) targetId
                  (setCooldown now playerId abilityName (a_cooldown ability)
                     (updatePlayer playerId (auraPatch player ability) s))"
      by blast
    let ?s2 = "setCooldown now playerId abilityName (a_cooldown ability)
                     (updatePlayer playerId (auraPatch player ability) s)"
    let ?p1 = "player\<lparr>p_aura := p_aura player - a_auraCost ability\<rparr>"
    have pos: "0 < a_auraCost ability" "1 \<le> a_requiredLevel ability"
      using abilities_positive [of "normalizeName abilityName" ability] ab
      by (simp_all add: resolveAbility_def)
    have pin: "player \<in> set (players s)" and pid: "p_id player = playerId"
      using gp by (simp_all add: getPlayer_mem getPlayer_id)
    have vp: "vitalsInBounds player" using inv pin by blast
    have vp1: "vitalsInBounds ?p1"
      using vp aura pos by (simp add: vitalsInBounds_def)
    have rows2: "vitalsInBounds q \<and> (p_id q = playerId \<longrightarrow> q = ?p1)"
      if "q \<in> set (players ?s2)" for q
    proof -
      from that obtain q0 where q0: "q0 \<in> set (players s)"
        and q: "q = (if p_id q0 = playerId then q0\<lparr>p_aura := p_aura player - a_auraCost ability\<rparr> else q0)"
        by (auto simp: players_after_payment)
      show ?thesis
      proof (cases "p_id q0 = playerId")
        case True
        then have "q0 = player" using own_row [OF d gp q0] by simp
        with q True vp1 show ?thesis by simp
      next
        case False
        with q q0 inv show ?thesis by simp
      qed
    qed
    from handleTarget_players [of now rnd uuid player "totalDamageOf player ability" targetId ?s2]
    have "\<forall>p \<in> set (players s'). vitalsInBounds p"
    proof (elim disjE exE)
      assume "players (handleTarget now rnd uuid player (totalDamageOf player ability) targetId ?s2)
                = players ?s2"
      then show ?thesis using rows2 s' by simp
    next
      fix e
      assume eq: "players (handleTarget now rnd uuid player (totalDamageOf player ability) targetId ?s2)
                = players (awardExperience player e ?s2)"
      let ?F = "\<lambda>q. if p_id q = p_id player
              then (if levelsUp player e
                    then q\<lparr> p_experience := p_experience player + e,
                            p_level := specLevel (p_experience player + e),
                            p_maxHealth := 1000 + specLevel (p_experience player + e) * 50,
                            p_maxAura := 500 + specLevel (p_experience player + e) * 25,
                            p_health := 1000 + specLevel (p_experience player + e) * 50,
                            p_aura := 500 + specLevel (p_experience player + e) * 25 \<rparr>
                    else q\<lparr> p_experience := p_experience player + e \<rparr>)
              else q"
      show ?thesis
      proof
        fix p assume "p \<in> set (players s')"
        then have "p \<in> set (players (awardExperience player e ?s2))" using eq s' by simp
        then have "p \<in> ?F ` set (players ?s2)"
          by (simp only: awardExperience_players set_map)
        then obtain q where q: "q \<in> set (players ?s2)" and p: "p = ?F q"
          by (rule imageE)
        have vq: "vitalsInBounds q" using rows2 [OF q] by simp
        show "vitalsInBounds p"
        proof (cases "p_id q = p_id player \<and> levelsUp player e")
          case True
          then have "1 < specLevel (p_experience player + e)"
            using lvl pos by (simp add: levelsUp_def)
          with True p show ?thesis by (simp add: vitalsInBounds_def)
        next
          case False
          with p vq show ?thesis by (auto simp: vitalsInBounds_def)
        qed
      qed
    qed
    with run show ?thesis by simp
  qed
qed

subsection \<open>Dead monsters stay dead\<close>

text \<open>No operation of the server sets \<^verbatim>\<open>isAlive\<close> back to true or reuses an id.\<close>

lemma buried_cong: "monsters s' = monsters s \<Longrightarrow> buried tid s' = buried tid s"
  by (simp add: buried_def)

lemma buried_updateMonster: "buried tid s \<Longrightarrow> buried tid (updateMonster mid h s)"
  by (auto simp: buried_def updateMonster_def image_iff)

lemma buried_deleteMonster: "buried tid s \<Longrightarrow> buried tid (deleteMonster mid s)"
  by (auto simp: buried_def deleteMonster_def image_iff)

lemma buried_createMonster:
  "buried tid s \<Longrightarrow> createMonster newId row s = Some s' \<Longrightarrow> buried tid s'"
  by (auto simp: buried_def createMonster_def Let_def split: if_splits)

lemma buried_handleTarget:
  assumes "buried tid s"
  shows "buried tid (handleTarget now rnd uuid player dmg targetId s)"
proof -
  have a: "buried tid (dropLoot now rnd uuid m k (awardExperience player e x)) = buried tid x"
    for m k e x
    by (rule buried_cong) (simp add: dropLoot_frame awardExperience_frame)
  from handleTarget_cases [of now rnd uuid player dmg targetId s] assms
  show ?thesis
    by (auto simp: a buried_updateMonster buried_deleteMonster)
qed

lemma buried_useAbility:
  assumes "buried tid s"
  shows "buried tid (snd (useAbility now rnd uuid playerId abilityName targetId s))"
proof -
  obtain r s' where run: "useAbility now rnd uuid playerId abilityName targetId s = (r, s')"
    by (cases "useAbility now rnd uuid playerId abilityName targetId s")
  show ?thesis
  proof (cases "r_success r")
    case False
    with run have "s' = s" by (rule useAbility_failure)
    with run assms show ?thesis by simp
  next
    case True
    from useAbility_success [OF run True] obtain player ability where
      s': "s' = handleTarget now rnd uuid player (totalDamageOf player ability) targetId
                  (setCooldown now playerId abilityName (a_cooldown ability)
                     (updatePlayer playerId (auraPatch player ability) s))"
      by blast
    have "buried tid (setCooldown now playerId abilityName (a_cooldown ability)
                     (updatePlayer playerId (auraPatch player ability) s))"
      using assms by (simp add: buried_def setCooldown_def updatePlayer_def Let_def)
    then have "buried tid s'" unfolding s' by (rule buried_handleTarget)
    with run show ?thesis by simp
  qed
qed

lemma buried_spawnerTick: "buried tid s \<Longrightarrow> buried tid (spawnerTick rnd newId s)"
  by (auto simp: spawnerTick_def spawnMonster_def Let_def
      split: option.splits if_splits dest: buried_createMonster)

lemma monsters_rebirthEndpoint: "monsters (snd (rebirthEndpoint playerId s)) = monsters s"
  by (simp add: rebirthEndpoint_def performRebirth_def updatePlayer_def Let_def
      split: option.splits)

lemma monsters_collectWorldLoot:
  "monsters (snd (collectWorldLoot now newId playerId lootId s)) = monsters s"
  by (simp add: collectWorldLoot_def addToInventory_def Let_def split: option.splits)

lemma buried_perform: "buried tid s \<Longrightarrow> buried tid (perform op s)"
proof (cases op)
  case (UseAbility now rnd uuid playerId abilityName targetId)
  assume "buried tid s"
  with UseAbility show ?thesis by (simp add: buried_useAbility)
next
  case RegenerationTick
  assume "buried tid s"
  with RegenerationTick show ?thesis
    by (simp add: buried_def regenerationTick_def fold_regenOne_rest)
next
  case (SpawnerTick rnd newId)
  assume "buried tid s"
  with SpawnerTick show ?thesis by (simp add: buried_spawnerTick)
next
  case (LootJanitorTick now)
  assume "buried tid s"
  with LootJanitorTick show ?thesis by (simp add: buried_def cleanupExpiredLoot_def)
next
  case (RebirthRequest playerId)
  assume "buried tid s"
  with RebirthRequest show ?thesis by (simp add: buried_def monsters_rebirthEndpoint)
next
  case (CollectLootRequest now newId playerId lootId)
  assume "buried tid s"
  with CollectLootRequest show ?thesis by (simp add: buried_def monsters_collectWorldLoot)
qed

lemma buried_performAll: "buried tid s \<Longrightarrow> buried tid (performAll ops s)"
  unfolding performAll_def
  by (induction ops arbitrary: s) (simp_all add: buried_perform)

lemma buried_excluded:
  "buried tid s \<Longrightarrow> \<forall>m \<in> set (getMonstersInZone zone s). m_id m \<noteq> tid"
  by (auto simp: buried_def getMonstersInZone_def)

lemma monsters_after_kill:
  "monsters (deleteMonster tid (updateMonster tid h s)) =
     map (\<lambda>x. if m_id x = tid then x\<lparr>m_health := h, m_isAlive := False\<rparr> else x) (monsters s)"
  by (simp add: deleteMonster_def updateMonster_def)

lemma buried_after_kill:
  assumes "m \<in> set ms" and "m_id m = tid"
    and "monsters s' = map (\<lambda>x. if m_id x = tid then x\<lparr>m_health := h, m_isAlive := False\<rparr> else x) ms"
  shows "buried tid s'"
proof -
  let ?F = "\<lambda>x. if m_id x = tid then x\<lparr>m_health := h, m_isAlive := False\<rparr> else x"
  have ids: "m_id (?F x) = m_id x" for x by simp
  have "map m_id (monsters s') = map m_id ms"
    unfolding assms(3) map_map o_def ids ..
  then have taken: "tid \<in> set (map m_id (monsters s'))"
    using assms(1,2) by auto
  have dead: "\<not> m_isAlive x" if "x \<in> set (monsters s')" "m_id x = tid" for x
  proof -
    from that(1) have "x \<in> ?F ` set ms" by (simp only: assms(3) set_map)
    then obtain y where y: "x = ?F y" by (rule imageE)
    with that(2) ids [of y] have "m_id y = tid" by simp
    with y show ?thesis by simp
  qed
  show ?thesis unfolding buried_def using taken dead by blast
qed

subsection \<open>The example world\<close>

text \<open>Facts about the example world that the witnesses share.\<close>

lemmas example_defs =
  exampleWorld_def alice_def bob_def carol_def dave_def veteran_def golem_def staleLoot_def
  newPlayer_def

lemma example_players:
  "getPlayer ''alice-id'' exampleWorld = Some alice"
  "getPlayer ''bob-id'' exampleWorld = Some bob"
  "getPlayer ''carol-id'' exampleWorld = Some carol"
  "getPlayer ''dave-id'' exampleWorld = Some dave"
  "getPlayer ''veteran-id'' exampleWorld = Some veteran"
  by (simp_all add: getPlayer_def example_defs)

lemma example_distinct:
  "distinct (map p_id (players exampleWorld))"
  "distinct (map m_id (monsters exampleWorld))"
  by (simp_all add: example_defs)

lemma example_vitals: "\<forall>p \<in> set (players exampleWorld). vitalsInBounds p"
  by (simp add: example_defs vitalsInBounds_def)

lemma example_resolve:
  "resolveAbility ''stone_bullet'' = Some stone_bullet"
  "resolveAbility ''ground_dig_up'' = Some ground_dig_up"
  by (simp_all add: resolveAbility_def normalizeName_wire abilities_keys)

lemma example_no_cooldown: "\<not> isOnCooldown now playerId abilityName exampleWorld"
  by (simp add: isOnCooldown_def exampleWorld_def)

lemma example_golem_in_range: "isInRange alice golem 50"
  by (simp add: isInRange_squares alice_def golem_def newPlayer_def)

section \<open>The claims\<close>

subsection \<open>C1: the vitals stay within their bounds\<close>

text \<open>
  Claim C1. If every player satisfies \<open>0 \<le> health \<le> maxHealth\<close> and
  \<open>0 \<le> aura \<le> maxAura\<close> before the operation, then every player satisfies them after
  any call of \<^verbatim>\<open>useAbility\<close> (whatever it does: a refusal, a hit, a kill with the
  experience award and its level-up) and after any regeneration tick. The ids of the
  players are distinct, as the primary key of the table makes them.
\<close>

theorem vitals_preserved:
  assumes "distinct (map p_id (players s))"
    and "\<forall>p \<in> set (players s). vitalsInBounds p"
  shows "(\<forall>p \<in> set (players (snd (useAbility now rnd uuid playerId abilityName targetId s))).
            vitalsInBounds p) \<and>
         (\<forall>p \<in> set (players (regenerationTick s)). vitalsInBounds p)"
  using useAbility_bounds [OF assms] regenerationTick_bounds [OF assms] by blast

theorem vitals_preserved_witness:
  "distinct (map p_id (players exampleWorld)) \<and>
   list_all vitalsInBounds (players exampleWorld) \<and>
   list_all vitalsInBounds
     (players (snd (useAbility 1000 rnd0 uuid0 ''alice-id'' ''ground_dig_up''
                      (Some ''golem-1'') exampleWorld))) \<and>
   list_all vitalsInBounds (players (regenerationTick exampleWorld))"
  using vitals_preserved [OF example_distinct(1) example_vitals] example_distinct(1) example_vitals
  unfolding list_all_iff by blast

subsection \<open>C2: not enough aura\<close>

text \<open>
  Claim C2. When the player exists, the ability resolves, the level requirement is met
  and the aura is strictly below the cost, \<^verbatim>\<open>useAbility\<close> returns a result with
  \<open>success = False\<close> whose message is "Not enough aura" (so it contains
  "enough aura"), and the world it returns is the world it was given: no player field
  has changed, the trace of writes has not grown and no cooldown has been armed.
\<close>

theorem useAbility_not_enough_aura:
  assumes "getPlayer playerId s = Some player"
    and "resolveAbility abilityName = Some ability"
    and "a_requiredLevel ability \<le> p_level player"
    and "p_aura player < a_auraCost ability"
  shows "\<exists>r. useAbility now rnd uuid playerId abilityName targetId s = (r, s) \<and>
             \<not> r_success r \<and> r_message r = ''Not enough aura'' \<and>
             sublist ''enough aura'' (r_message r)"
proof -
  have "sublist ''enough aura'' (''Not '' @ ''enough aura'' @ [])"
    by (rule sublist_appendI)
  then have "sublist ''enough aura'' ''Not enough aura''" by simp
  with assms show ?thesis
    by (simp add: useAbility_def resolveAbility_def failureResult_def)
qed

theorem useAbility_not_enough_aura_witness:
  "getPlayer ''bob-id'' exampleWorld = Some bob \<and>
   resolveAbility ''stone_bullet'' = Some stone_bullet \<and>
   a_requiredLevel stone_bullet \<le> p_level bob \<and>
   p_aura bob < a_auraCost stone_bullet \<and>
   (\<exists>r. useAbility 1000 rnd0 uuid0 ''bob-id'' ''stone_bullet'' (Some ''golem-1'') exampleWorld =
          (r, exampleWorld) \<and>
        \<not> r_success r \<and> r_message r = ''Not enough aura'' \<and>
        sublist ''enough aura'' (r_message r))"
proof -
  have lvl: "a_requiredLevel stone_bullet \<le> p_level bob"
    by (simp add: stone_bullet_def bob_def newPlayer_def)
  have aura: "p_aura bob < a_auraCost stone_bullet"
    by (simp add: stone_bullet_def bob_def newPlayer_def)
  show ?thesis
    by (intro conjI example_players(2) example_resolve(1) lvl aura
        useAbility_not_enough_aura [OF example_players(2) example_resolve(1) lvl aura])
qed

subsection \<open>C3: experience and level\<close>

text \<open>
  Claim C3 as stated fails: the level is not capped at 100 but guarded by
  \<^verbatim>\<open>newLevel <= 100\<close>. The veteran is at level 99 with 9890 experience. An award
  of 200 brings the experience to 10090, for which the formula gives 101, and the level
  stays 99 where the claim says 100. The award is the one the veteran gets for killing
  the golem (level 20) with Ground Dig-Up.
\<close>

theorem awardExperience_cap_counterexample:
  "map_option p_level (getPlayer ''veteran-id'' (awardExperience veteran 200 exampleWorld)) =
     Some 99 \<and>
   map_option p_level
     (getPlayer ''veteran-id''
        (snd (useAbility 1000 rnd0 uuid0 ''veteran-id'' ''ground_dig_up'' (Some ''golem-1'')
                exampleWorld))) = Some 99 \<and>
   map_option p_experience
     (getPlayer ''veteran-id''
        (snd (useAbility 1000 rnd0 uuid0 ''veteran-id'' ''ground_dig_up'' (Some ''golem-1'')
                exampleWorld))) = Some 10090 \<and>
   min 100 (\<lfloor>real_of_int 10090 / 100\<rfloor> + 1) = (100 :: int)"
proof -
  let ?s2 = "setCooldown 1000 ''veteran-id'' ''ground_dig_up'' (a_cooldown ground_dig_up)
               (updatePlayer ''veteran-id'' (auraPatch veteran ground_dig_up) exampleWorld)"
  have vid: "p_id veteran = ''veteran-id''" by (simp add: veteran_def newPlayer_def)
  have direct: "map_option p_level
      (getPlayer ''veteran-id'' (awardExperience veteran 200 exampleWorld)) = Some 99"
    using vid
    by (simp add: awardExperience_def Let_def getPlayer_updatePlayer example_players
        applyPatch_def noPatch_def orKeep_def veteran_def newPlayer_def)
  have lvl: "a_requiredLevel ground_dig_up \<le> p_level veteran"
    by (simp add: ground_dig_up_def veteran_def newPlayer_def)
  have aura: "a_auraCost ground_dig_up \<le> p_aura veteran"
    by (simp add: ground_dig_up_def veteran_def newPlayer_def)
  have dmg: "totalDamageOf veteran ground_dig_up = 300"
    by (simp add: totalDamageOf_def ground_dig_up_def veteran_def newPlayer_def)
  have run: "snd (useAbility 1000 rnd0 uuid0 ''veteran-id'' ''ground_dig_up'' (Some ''golem-1'')
                exampleWorld) =
             handleTarget 1000 rnd0 uuid0 veteran 300 (Some ''golem-1'') ?s2"
    by (simp add: useAbility_passes [OF example_players(5) example_resolve(2) lvl aura
          example_no_cooldown] dmg)
  have mon2: "monsters ?s2 = monsters exampleWorld"
    by (simp add: setCooldown_def updatePlayer_def Let_def)
  have near: "isInRange veteran golem 50"
    by (simp add: isInRange_squares veteran_def golem_def newPlayer_def)
  have g: "golem \<in> set (monsters exampleWorld)" "m_isAlive golem"
          "m_zone golem = ''selha_latna''" "m_id golem = ''golem-1''"
    by (simp_all add: exampleWorld_def golem_def)
  have "findNearbyMonster veteran (m_id golem) exampleWorld = Some golem"
    using example_distinct(2) g(1,2,3) near by (rule findNearbyMonster_valid)
  then have fnm: "findNearbyMonster veteran ''golem-1'' ?s2 = Some golem"
    using findNearbyMonster_cong [OF mon2] g(4) by simp
  have k: "m_health golem - 300 \<le> 0" by (simp add: golem_def)
  have gain: "killExperience (m_level golem) (p_rebirthCycle veteran) = 200"
    by (simp add: killExperience_values golem_def veteran_def newPlayer_def)
  have killed: "handleTarget 1000 rnd0 uuid0 veteran 300 (Some ''golem-1'') ?s2 =
           dropLoot 1000 rnd0 uuid0 golem ''veteran-id''
             (awardExperience veteran 200
                (deleteMonster ''golem-1'' (updateMonster ''golem-1'' 0 ?s2)))"
    using handleTarget_kill [OF fnm _ k, of 1000 rnd0 uuid0] by (simp add: gain vid)
  have stays: "\<not> levelsUp veteran 200"
    by (simp add: levelsUp_def specLevel_def veteran_def newPlayer_def)
  from getPlayer_after_kill [OF example_players(5), of 1000 rnd0 uuid0 golem "''veteran-id''"
      200 "''golem-1''" 0 "''ground_dig_up''" "a_cooldown ground_dig_up" ground_dig_up] stays
  have "getPlayer ''veteran-id''
          (dropLoot 1000 rnd0 uuid0 golem ''veteran-id''
             (awardExperience veteran 200
                (deleteMonster ''golem-1'' (updateMonster ''golem-1'' 0 ?s2)))) =
        Some (veteran\<lparr>p_aura := p_aura veteran - a_auraCost ground_dig_up,
                       p_experience := p_experience veteran + 200\<rparr>)"
    by auto
  then have via: "map_option p_level
     (getPlayer ''veteran-id''
        (snd (useAbility 1000 rnd0 uuid0 ''veteran-id'' ''ground_dig_up'' (Some ''golem-1'')
                exampleWorld))) = Some 99 \<and>
    map_option p_experience
     (getPlayer ''veteran-id''
        (snd (useAbility 1000 rnd0 uuid0 ''veteran-id'' ''ground_dig_up'' (Some ''golem-1'')
                exampleWorld))) = Some 10090"
    unfolding run killed by (simp add: veteran_def newPlayer_def)
  show ?thesis using direct via by simp
qed

text \<open>
  Claim C3, amended. \<^verbatim>\<open>awardExperience\<close> sets the experience of the player's row to
  the old experience plus the award. When \<open>\<lfloor>newExperience / 100\<rfloor> + 1\<close> is greater than
  the player's level and at most 100, the level becomes that value, \<open>maxHealth\<close>
  becomes \<open>1000 + level * 50\<close>, \<open>maxAura\<close> becomes \<open>500 + level * 25\<close>, and health and
  aura are set to these maxima. Otherwise level, maxima, health and aura keep their
  values. The rows of the other players are untouched.
\<close>

theorem awardExperience_effect:
  assumes "getPlayer (p_id player) s = Some q"
  shows "\<exists>q'. getPlayer (p_id player) (awardExperience player expAmount s) = Some q' \<and>
           p_experience q' = p_experience player + expAmount \<and>
           (levelsUp player expAmount \<longrightarrow>
              p_level q' = specLevel (p_experience player + expAmount) \<and>
              p_maxHealth q' = 1000 + p_level q' * 50 \<and>
              p_maxAura q' = 500 + p_level q' * 25 \<and>
              p_health q' = p_maxHealth q' \<and> p_aura q' = p_maxAura q' \<and>
              q' = q\<lparr> p_experience := p_experience q', p_level := p_level q',
                       p_maxHealth := p_maxHealth q', p_maxAura := p_maxAura q',
                       p_health := p_health q', p_aura := p_aura q' \<rparr>) \<and>
           (\<not> levelsUp player expAmount \<longrightarrow>
              q' = q\<lparr>p_experience := p_experience player + expAmount\<rparr>) \<and>
           (\<forall>other. other \<noteq> p_id player \<longrightarrow>
              getPlayer other (awardExperience player expAmount s) = getPlayer other s)"
proof -
  have id: "p_id q = p_id player" using assms by (rule getPlayer_id)
  have others: "\<forall>other. other \<noteq> p_id player \<longrightarrow>
              getPlayer other (awardExperience player expAmount s) = getPlayer other s"
    by (simp add: awardExperience_as_update getPlayer_updatePlayer_other)
  show ?thesis
  proof (cases "levelsUp player expAmount")
    case True
    then have "getPlayer (p_id player) (awardExperience player expAmount s) =
        Some (q\<lparr> p_experience := p_experience player + expAmount,
                 p_level := specLevel (p_experience player + expAmount),
                 p_maxHealth := 1000 + specLevel (p_experience player + expAmount) * 50,
                 p_maxAura := 500 + specLevel (p_experience player + expAmount) * 25,
                 p_health := 1000 + specLevel (p_experience player + expAmount) * 50,
                 p_aura := 500 + specLevel (p_experience player + expAmount) * 25 \<rparr>)"
      using assms id
      by (simp add: awardExperience_as_update getPlayer_updatePlayer applyPatch_def
          noPatch_def orKeep_def)
    with True others show ?thesis by simp
  next
    case False
    then have "getPlayer (p_id player) (awardExperience player expAmount s) =
        Some (q\<lparr>p_experience := p_experience player + expAmount\<rparr>)"
      using assms id
      by (simp add: awardExperience_as_update getPlayer_updatePlayer applyPatch_def
          noPatch_def orKeep_def)
    with False others show ?thesis by simp
  qed
qed

theorem awardExperience_effect_witness:
  "getPlayer (p_id alice) exampleWorld = Some alice \<and> levelsUp alice 200 \<and>
   getPlayer (p_id alice) (awardExperience alice 200 exampleWorld) =
     Some (alice\<lparr> p_experience := 6150, p_level := 62, p_maxHealth := 4100,
                  p_maxAura := 2050, p_health := 4100, p_aura := 2050 \<rparr>) \<and>
   getPlayer (p_id veteran) exampleWorld = Some veteran \<and> \<not> levelsUp veteran 200 \<and>
   getPlayer (p_id veteran) (awardExperience veteran 200 exampleWorld) =
     Some (veteran\<lparr>p_experience := 10090\<rparr>)"
proof -
  have ia: "p_id alice = ''alice-id''" and iv: "p_id veteran = ''veteran-id''"
    by (simp_all add: alice_def veteran_def newPlayer_def)
  have ga: "getPlayer (p_id alice) exampleWorld = Some alice"
    unfolding ia by (rule example_players(1))
  have gv: "getPlayer (p_id veteran) exampleWorld = Some veteran"
    unfolding iv by (rule example_players(5))
  have ua: "levelsUp alice 200"
    by (simp add: levelsUp_def specLevel_def alice_def newPlayer_def)
  have la: "specLevel (p_experience alice + 200) = 62"
    by (simp add: specLevel_def alice_def newPlayer_def)
  have ea: "p_experience alice + 200 = 6150" by (simp add: alice_def newPlayer_def)
  have uv: "\<not> levelsUp veteran 200"
    by (simp add: levelsUp_def specLevel_def veteran_def newPlayer_def)
  have ev: "p_experience veteran + 200 = 10090" by (simp add: veteran_def newPlayer_def)
  from awardExperience_effect [OF ga, of 200] ua obtain q' where
    q': "getPlayer (p_id alice) (awardExperience alice 200 exampleWorld) = Some q'"
        "p_experience q' = p_experience alice + 200"
        "p_level q' = specLevel (p_experience alice + 200)"
        "p_maxHealth q' = 1000 + p_level q' * 50"
        "p_maxAura q' = 500 + p_level q' * 25"
        "p_health q' = p_maxHealth q'" "p_aura q' = p_maxAura q'"
        "q' = alice\<lparr> p_experience := p_experience q', p_level := p_level q',
                     p_maxHealth := p_maxHealth q', p_maxAura := p_maxAura q',
                     p_health := p_health q', p_aura := p_aura q' \<rparr>"
    by blast
  have vals: "p_experience q' = 6150" "p_level q' = 62" "p_maxHealth q' = 4100"
      "p_maxAura q' = 2050" "p_health q' = 4100" "p_aura q' = 2050"
    using q'(2-7) la ea by simp_all
  have a: "getPlayer (p_id alice) (awardExperience alice 200 exampleWorld) =
     Some (alice\<lparr> p_experience := 6150, p_level := 62, p_maxHealth := 4100,
                  p_maxAura := 2050, p_health := 4100, p_aura := 2050 \<rparr>)"
    using q'(1,8) unfolding vals by simp
  from awardExperience_effect [OF gv, of 200] uv
  have v: "getPlayer (p_id veteran) (awardExperience veteran 200 exampleWorld) =
     Some (veteran\<lparr>p_experience := 10090\<rparr>)"
    unfolding ev by auto
  show ?thesis by (intro conjI ga ua a gv uv v)
qed

subsection \<open>C4: a kill\<close>

text \<open>
  What a kill does in general. A successful \<^verbatim>\<open>useAbility\<close> aims at a valid target
  (a monster that is alive, in the combat zone, within range 50, whose id is the non-empty
  target id) and the damage it reports takes the monster's health to 0 or below. Then
  every row of the monster with that id has health 0 and \<open>isAlive = False\<close>; no result
  of \<^verbatim>\<open>getMonstersInZone\<close> contains the monster, neither right after the call nor
  after any sequence of later operations of the server; and the experience of the
  attacker is the old experience plus the award as the engine computes it in doubles.
\<close>

lemma useAbility_kill_effect:
  assumes run: "useAbility now rnd uuid playerId abilityName (Some tid) s = (r, s')"
    and ok: "r_success r"
    and gp: "getPlayer playerId s = Some player"
    and dm: "distinct (map m_id (monsters s))"
    and m: "m \<in> set (monsters s)" "m_id m = tid" "tid \<noteq> []" "m_isAlive m"
           "m_zone m = ''selha_latna''" "isInRange player m 50"
    and kill: "r_damage r = Some dmg" "m_health m - dmg \<le> 0"
  shows "monsters s' =
           map (\<lambda>x. if m_id x = tid then x\<lparr>m_health := 0, m_isAlive := False\<rparr> else x)
             (monsters s) \<and>
         (\<forall>ops zone. \<forall>x \<in> set (getMonstersInZone zone (performAll ops s')). m_id x \<noteq> tid) \<and>
         (\<exists>p'. getPlayer playerId s' = Some p' \<and>
               p_experience p' =
                 p_experience player + killExperience (m_level m) (p_rebirthCycle player))"
proof -
  from useAbility_success [OF run ok] obtain player' ability where
    gp': "getPlayer playerId s = Some player'" and
    dmg': "r_damage r = Some (totalDamageOf player' ability)" and
    s'': "s' = handleTarget now rnd uuid player' (totalDamageOf player' ability) (Some tid)
                (setCooldown now playerId abilityName (a_cooldown ability)
                   (updatePlayer playerId (auraPatch player' ability) s))"
    by blast
  have same: "player' = player" using gp gp' by simp
  have dmg: "r_damage r = Some (totalDamageOf player ability)"
    using dmg' unfolding same .
  have s': "s' = handleTarget now rnd uuid player (totalDamageOf player ability) (Some tid)
                (setCooldown now playerId abilityName (a_cooldown ability)
                   (updatePlayer playerId (auraPatch player ability) s))"
    using s'' unfolding same .
  let ?s2 = "setCooldown now playerId abilityName (a_cooldown ability)
                   (updatePlayer playerId (auraPatch player ability) s)"
  let ?e = "killExperience (m_level m) (p_rebirthCycle player)"
  let ?s3 = "deleteMonster tid (updateMonster tid 0 ?s2)"
  have mon2: "monsters ?s2 = monsters s"
    by (simp add: setCooldown_def updatePlayer_def Let_def)
  have "findNearbyMonster player (m_id m) s = Some m"
    using dm m(1,4,5,6) by (rule findNearbyMonster_valid)
  then have fnm: "findNearbyMonster player tid ?s2 = Some m"
    using findNearbyMonster_cong [OF mon2] m(2) by simp
  have k: "m_health m - totalDamageOf player ability \<le> 0" using kill dmg by simp
  have s'eq: "s' = dropLoot now rnd uuid m (p_id player) (awardExperience player ?e ?s3)"
    unfolding s' by (rule handleTarget_kill [OF fnm m(3) k])
  have mons: "monsters s' =
           map (\<lambda>x. if m_id x = tid then x\<lparr>m_health := 0, m_isAlive := False\<rparr> else x)
             (monsters s)"
    by (simp add: s'eq dropLoot_frame awardExperience_frame monsters_after_kill mon2)
  have b: "buried tid s'"
    using m(1,2) mons by (rule buried_after_kill)
  have later: "\<forall>ops zone. \<forall>x \<in> set (getMonstersInZone zone (performAll ops s')). m_id x \<noteq> tid"
  proof (intro allI)
    fix ops zone
    have "buried tid (performAll ops s')" using b by (rule buried_performAll)
    then show "\<forall>x \<in> set (getMonstersInZone zone (performAll ops s')). m_id x \<noteq> tid"
      by (rule buried_excluded)
  qed
  have pid: "p_id player = playerId" using gp by (rule getPlayer_id)
  have ps3: "players ?s3 = players ?s2" by (simp add: deleteMonster_def updateMonster_def)
  have "getPlayer playerId ?s3 = getPlayer playerId ?s2"
    by (rule getPlayer_cong [OF ps3])
  also have "\<dots> = Some (player\<lparr>p_aura := p_aura player - a_auraCost ability\<rparr>)"
    by (rule getPlayer_after_payment [OF gp])
  finally have "getPlayer (p_id player) ?s3 =
                  Some (player\<lparr>p_aura := p_aura player - a_auraCost ability\<rparr>)"
    unfolding pid .
  from getPlayer_awardExperience [OF this] obtain q' where
    q': "getPlayer (p_id player) (awardExperience player ?e ?s3) = Some q'"
        "p_experience q' = p_experience player + ?e"
    by blast
  have "getPlayer playerId s' = getPlayer (p_id player) (awardExperience player ?e ?s3)"
    unfolding s'eq pid by (rule getPlayer_cong) (simp add: dropLoot_frame)
  with q' have "\<exists>p'. getPlayer playerId s' = Some p' \<and> p_experience p' = p_experience player + ?e"
    by simp
  with mons later show ?thesis by blast
qed

text \<open>
  Claim C4 does not hold of the code in its experience part. The monster is soft-deleted
  and excluded from the zone queries, but the award is computed in doubles, where
  \<open>1 + 4 * 0.1\<close> is the double below \<open>1.4\<close> and \<open>170\<close> times it lies below \<open>238\<close>.
  Erin, in rebirth cycle 4, kills a wolf of level 17 with a Stone Bullet: the claim
  grants \<open>\<lfloor>17 * 10 * (1 + 4 * 0.1)\<rfloor> = 238\<close> experience, the engine grants 237.
\<close>

theorem kill_award_rounds_down:
  "r_success (fst (useAbility 1000 rnd0 uuid0 ''erin-id'' ''stone_bullet'' (Some ''wolf-1'')
                     arenaWorld)) \<and>
   monsters (snd (useAbility 1000 rnd0 uuid0 ''erin-id'' ''stone_bullet'' (Some ''wolf-1'')
                     arenaWorld)) = [wolf\<lparr>m_health := 0, m_isAlive := False\<rparr>] \<and>
   getMonstersInZone ''selha_latna''
     (snd (useAbility 1000 rnd0 uuid0 ''erin-id'' ''stone_bullet'' (Some ''wolf-1'')
             arenaWorld)) = [] \<and>
   ''wolf-1'' \<notin> set (map m_id (getMonstersInZone ''selha_latna''
     (performAll [SpawnerTick rnd0 ''wolf-1'', RegenerationTick,
                  UseAbility 9000 rnd0 uuid0 ''erin-id'' ''stone_bullet'' (Some ''wolf-1'')]
        (snd (useAbility 1000 rnd0 uuid0 ''erin-id'' ''stone_bullet'' (Some ''wolf-1'')
                arenaWorld))))) \<and>
   map_option p_experience
     (getPlayer ''erin-id''
        (snd (useAbility 1000 rnd0 uuid0 ''erin-id'' ''stone_bullet'' (Some ''wolf-1'')
                arenaWorld))) = Some (p_experience erin + 237) \<and>
   specExpGain (m_level wolf) (p_rebirthCycle erin) = 238"
proof -
  let ?run = "useAbility 1000 rnd0 uuid0 ''erin-id'' ''stone_bullet'' (Some ''wolf-1'')
                arenaWorld"
  have gp: "getPlayer ''erin-id'' arenaWorld = Some erin"
    by (simp add: getPlayer_def arenaWorld_def erin_def newPlayer_def)
  have lvl: "a_requiredLevel stone_bullet \<le> p_level erin"
    by (simp add: stone_bullet_def erin_def newPlayer_def)
  have aura: "a_auraCost stone_bullet \<le> p_aura erin"
    by (simp add: stone_bullet_def erin_def newPlayer_def)
  have nocd: "\<not> isOnCooldown 1000 ''erin-id'' ''stone_bullet'' arenaWorld"
    by (simp add: isOnCooldown_def arenaWorld_def)
  have dmg: "totalDamageOf erin stone_bullet = 550"
    by (simp add: totalDamageOf_def floor_tenth stone_bullet_def erin_def newPlayer_def)
  note pass = useAbility_passes [OF gp example_resolve(1) lvl aura nocd,
      of rnd0 uuid0 "Some ''wolf-1''"]
  have run: "?run = (fst ?run, snd ?run)" by simp
  have ok: "r_success (fst ?run)" by (simp add: pass)
  have rd: "r_damage (fst ?run) = Some 550" by (simp add: pass dmg)
  have ms: "monsters arenaWorld = [wolf]" by (simp add: arenaWorld_def)
  have d: "distinct (map m_id (monsters arenaWorld))" by (simp add: ms)
  have w1: "wolf \<in> set (monsters arenaWorld)" by (simp add: ms)
  have w2: "m_id wolf = ''wolf-1''" by (simp add: wolf_def)
  have w3: "''wolf-1'' \<noteq> []" by simp
  have w4: "m_isAlive wolf" by (simp add: wolf_def)
  have w5: "m_zone wolf = ''selha_latna''" by (simp add: wolf_def)
  have w6: "isInRange erin wolf 50"
    by (simp add: isInRange_squares erin_def wolf_def newPlayer_def)
  have kill: "m_health wolf - 550 \<le> 0" by (simp add: wolf_def)
  have award: "killExperience (m_level wolf) (p_rebirthCycle erin) = 237"
    by (simp add: killExperience_values wolf_def erin_def newPlayer_def)
  have claimed: "specExpGain (m_level wolf) (p_rebirthCycle erin) = 238"
    by (simp add: specExpGain_values wolf_def erin_def newPlayer_def)
  note effect = useAbility_kill_effect [OF run ok gp d w1 w2 w3 w4 w5 w6 rd kill]
  have dead: "monsters (snd ?run) = [wolf\<lparr>m_health := 0, m_isAlive := False\<rparr>]"
    using effect [THEN conjunct1] by (simp add: ms w2)
  note gone = effect [THEN conjunct2, THEN conjunct1]
  have later: "''wolf-1'' \<notin> set (map m_id (getMonstersInZone zone (performAll ops (snd ?run))))"
    for ops zone
  proof
    assume "''wolf-1'' \<in> set (map m_id (getMonstersInZone zone (performAll ops (snd ?run))))"
    then obtain x where "x \<in> set (getMonstersInZone zone (performAll ops (snd ?run)))"
      and "m_id x = ''wolf-1''"
      by auto
    with gone show False by blast
  qed
  have now: "getMonstersInZone ''selha_latna'' (snd ?run) = []"
    by (simp add: getMonstersInZone_def dead)
  from effect [THEN conjunct2, THEN conjunct2] obtain p' where
    p': "getPlayer ''erin-id'' (snd ?run) = Some p'"
        "p_experience p' =
           p_experience erin + killExperience (m_level wolf) (p_rebirthCycle erin)"
    by blast
  have xp: "map_option p_experience (getPlayer ''erin-id'' (snd ?run)) =
              Some (p_experience erin + 237)"
    using p' by (simp add: award)
  show ?thesis
    by (intro conjI ok dead now later xp claimed)
qed

subsection \<open>C5: the cooldown\<close>

text \<open>
  Claim C5 as stated fails in the message: the aura check comes before the cooldown
  check. Dave has 60 aura; a Stone Bullet at time 1000 succeeds and leaves him 10, and
  the second attempt one millisecond later is refused with "Not enough aura", which is
  not an on-cooldown message.
\<close>

theorem cooldown_message_counterexample:
  "r_success (fst (useAbility 1000 rnd0 uuid0 ''dave-id'' ''stone_bullet'' None exampleWorld)) \<and>
   (1001 :: int) - 1000 < a_cooldown stone_bullet \<and>
   r_message (fst (useAbility 1001 rnd0 uuid0 ''dave-id'' ''stone_bullet'' None
                (snd (useAbility 1000 rnd0 uuid0 ''dave-id'' ''stone_bullet'' None exampleWorld))))
     = ''Not enough aura'' \<and>
   \<not> sublist ''cooldown'' ''Not enough aura''"
proof -
  let ?s1 = "setCooldown 1000 ''dave-id'' ''stone_bullet'' (a_cooldown stone_bullet)
               (updatePlayer ''dave-id'' (auraPatch dave stone_bullet) exampleWorld)"
  have lvl: "a_requiredLevel stone_bullet \<le> p_level dave"
    by (simp add: stone_bullet_def dave_def newPlayer_def)
  have aura: "a_auraCost stone_bullet \<le> p_aura dave"
    by (simp add: stone_bullet_def dave_def newPlayer_def)
  have first: "useAbility 1000 rnd0 uuid0 ''dave-id'' ''stone_bullet'' None exampleWorld =
      (\<lparr> r_success = True, r_damage = Some (totalDamageOf dave stone_bullet),
         r_abilityUsed = ''stone_bullet'', r_playerId = ''dave-id'', r_targetId = None,
         r_message = ''Used '' @ a_name stone_bullet @ '' for '' @
                     toString (totalDamageOf dave stone_bullet) @ '' damage'',
         r_auraCost = a_auraCost stone_bullet \<rparr>, ?s1)"
    using useAbility_passes [OF example_players(4) example_resolve(1) lvl aura
        example_no_cooldown, of 1000 rnd0 uuid0 None]
    by (simp add: handleTarget_def)
  have gp1: "getPlayer ''dave-id'' ?s1 =
               Some (dave\<lparr>p_aura := p_aura dave - a_auraCost stone_bullet\<rparr>)"
    by (rule getPlayer_after_payment [OF example_players(4)])
  have short: "p_aura dave - a_auraCost stone_bullet < a_auraCost stone_bullet"
    by (simp add: stone_bullet_def dave_def newPlayer_def)
  have second: "r_message (fst (useAbility 1001 rnd0 uuid0 ''dave-id'' ''stone_bullet'' None ?s1))
                  = ''Not enough aura''"
    using example_resolve(1) lvl short
    by (simp add: useAbility_def gp1 resolveAbility_def failureResult_def)
  have cd: "(1001 :: int) - 1000 < a_cooldown stone_bullet" by (simp add: stone_bullet_def)
  have ns: "\<not> sublist ''cooldown'' ''Not enough aura''"
    by (simp add: sublist_Cons_right prefix_Cons)
  show ?thesis
    unfolding first using second cd ns by simp
qed

text \<open>
  Claim C5, amended. If a call of \<^verbatim>\<open>useAbility\<close> succeeds at time \<open>t \<ge> 0\<close>, then a
  second call by the same player with the same ability name at a time \<open>t'\<close> with
  \<open>t' - t\<close> strictly less than the ability's cooldown, on the world the first call left,
  returns \<open>success = False\<close> and changes nothing: at most one of the two attempts
  succeeds. The message is the on-cooldown message with the remaining time
  \<open>t + cooldown - t'\<close> when the player's aura still covers the cost, and "Not enough
  aura" otherwise.
\<close>

theorem cooldown_blocks_second_use:
  assumes first: "useAbility t rnd uuid playerId abilityName targetId s = (r1, s1)"
    and ok: "r_success r1"
    and ab: "resolveAbility abilityName = Some ability"
    and t0: "0 \<le> t"
    and within: "t' - t < a_cooldown ability"
  shows "\<exists>r2 p1. useAbility t' rnd' uuid' playerId abilityName targetId' s1 = (r2, s1) \<and>
           \<not> r_success r2 \<and>
           getPlayer playerId s1 = Some p1 \<and>
           r_message r2 =
             (if p_aura p1 < a_auraCost ability then ''Not enough aura''
              else ''Ability on cooldown ('' @ toString (t + a_cooldown ability - t') @
                   ''ms remaining)'')"
proof -
  from useAbility_success [OF first ok] ab obtain player where
    gp: "getPlayer playerId s = Some player" and
    lvl: "a_requiredLevel ability \<le> p_level player" and
    s1: "s1 = handleTarget t rnd uuid player (totalDamageOf player ability) targetId
                (setCooldown t playerId abilityName (a_cooldown ability)
                   (updatePlayer playerId (auraPatch player ability) s))"
    by auto
  let ?s2 = "setCooldown t playerId abilityName (a_cooldown ability)
                   (updatePlayer playerId (auraPatch player ability) s)"
  let ?p1 = "player\<lparr>p_aura := p_aura player - a_auraCost ability\<rparr>"
  have pid: "p_id player = playerId" using gp by (rule getPlayer_id)
  have gp2: "getPlayer (p_id player) ?s2 = Some ?p1"
    using getPlayer_after_payment [OF gp] pid by simp
  have "\<exists>p1. getPlayer playerId s1 = Some p1 \<and> p_level player \<le> p_level p1"
    using handleTarget_players [of t rnd uuid player "totalDamageOf player ability" targetId ?s2]
  proof (elim disjE exE)
    assume "players (handleTarget t rnd uuid player (totalDamageOf player ability) targetId ?s2)
              = players ?s2"
    then have "getPlayer playerId s1 = getPlayer playerId ?s2"
      unfolding s1 by (rule getPlayer_cong)
    with gp2 pid show ?thesis by simp
  next
    fix e
    assume "players (handleTarget t rnd uuid player (totalDamageOf player ability) targetId ?s2)
              = players (awardExperience player e ?s2)"
    then have "getPlayer playerId s1 = getPlayer playerId (awardExperience player e ?s2)"
      unfolding s1 by (rule getPlayer_cong)
    with getPlayer_awardExperience [OF gp2, of e] pid show ?thesis by auto
  qed
  then obtain p1 where p1: "getPlayer playerId s1 = Some p1" "p_level player \<le> p_level p1"
    by blast
  have "playerCooldowns s1 = playerCooldowns ?s2"
    unfolding s1 by (rule handleTarget_cooldowns)
  with cooldown_after_payment [of t playerId abilityName "a_cooldown ability"]
  obtain cds where cds: "playerCooldowns s1 playerId = Some cds"
      "cds abilityName = Some (t + a_cooldown ability)"
    by metis
  have pos: "0 < a_cooldown ability"
    using abilities_positive [of "normalizeName abilityName" ability] ab
    by (simp add: resolveAbility_def)
  have nz: "t + a_cooldown ability \<noteq> 0" using t0 pos by simp
  have lt: "t' < t + a_cooldown ability" using within by simp
  have lvl1: "a_requiredLevel ability \<le> p_level p1" using lvl p1(2) by simp
  have "useAbility t' rnd' uuid' playerId abilityName targetId' s1 =
          (failureResult abilityName playerId
              (if p_aura p1 < a_auraCost ability then ''Not enough aura''
               else ''Ability on cooldown ('' @ toString (t + a_cooldown ability - t') @
                    ''ms remaining)'')
              (a_auraCost ability), s1)"
    by (rule useAbility_on_cooldown [OF p1(1) ab lvl1 cds nz lt])
  with p1(1) show ?thesis by (simp add: failureResult_def)
qed

theorem cooldown_blocks_second_use_witness:
  "r_success (fst (useAbility 1000 rnd0 uuid0 ''alice-id'' ''stone_bullet'' None exampleWorld)) \<and>
   resolveAbility ''stone_bullet'' = Some stone_bullet \<and>
   (0 :: int) \<le> 1000 \<and> (2500 :: int) - 1000 < a_cooldown stone_bullet \<and>
   (\<exists>r2. useAbility 2500 rnd0 uuid0 ''alice-id'' ''stone_bullet'' (Some ''golem-1'')
            (snd (useAbility 1000 rnd0 uuid0 ''alice-id'' ''stone_bullet'' None exampleWorld)) =
          (r2, snd (useAbility 1000 rnd0 uuid0 ''alice-id'' ''stone_bullet'' None exampleWorld)) \<and>
        \<not> r_success r2 \<and>
        r_message r2 = ''Ability on cooldown (500ms remaining)'')"
proof -
  let ?run = "useAbility 1000 rnd0 uuid0 ''alice-id'' ''stone_bullet'' None exampleWorld"
  have lvl: "a_requiredLevel stone_bullet \<le> p_level alice"
    by (simp add: stone_bullet_def alice_def newPlayer_def)
  have aura: "a_auraCost stone_bullet \<le> p_aura alice"
    by (simp add: stone_bullet_def alice_def newPlayer_def)
  note pass = useAbility_passes [OF example_players(1) example_resolve(1) lvl aura
      example_no_cooldown, of 1000 rnd0 uuid0 None]
  have run: "?run = (fst ?run, snd ?run)" by simp
  have ok: "r_success (fst ?run)" by (simp add: pass)
  have t0: "(0 :: int) \<le> 1000" by simp
  have within: "(2500 :: int) - 1000 < a_cooldown stone_bullet" by (simp add: stone_bullet_def)
  have "snd ?run = setCooldown 1000 ''alice-id'' ''stone_bullet'' (a_cooldown stone_bullet)
                     (updatePlayer ''alice-id'' (auraPatch alice stone_bullet) exampleWorld)"
    by (simp add: pass handleTarget_def)
  then have left: "getPlayer ''alice-id'' (snd ?run) =
                     Some (alice\<lparr>p_aura := p_aura alice - a_auraCost stone_bullet\<rparr>)"
    using getPlayer_after_payment [OF example_players(1)] by simp
  have enough: "\<not> p_aura (alice\<lparr>p_aura := p_aura alice - a_auraCost stone_bullet\<rparr>)
                    < a_auraCost stone_bullet"
    by (simp add: stone_bullet_def alice_def newPlayer_def)
  have remaining: "toString (1000 + a_cooldown stone_bullet - 2500) = ''500''"
    by code_simp
  from cooldown_blocks_second_use [OF run ok example_resolve(1) t0 within,
      of rnd0 uuid0 "Some ''golem-1''"]
  obtain r2 p1 where
    r2: "useAbility 2500 rnd0 uuid0 ''alice-id'' ''stone_bullet'' (Some ''golem-1'') (snd ?run) =
           (r2, snd ?run)"
        "\<not> r_success r2" "getPlayer ''alice-id'' (snd ?run) = Some p1"
        "r_message r2 =
           (if p_aura p1 < a_auraCost stone_bullet then ''Not enough aura''
            else ''Ability on cooldown ('' @ toString (1000 + a_cooldown stone_bullet - 2500) @
                 ''ms remaining)'')"
    by blast
  from r2(3) left have p1: "p1 = alice\<lparr>p_aura := p_aura alice - a_auraCost stone_bullet\<rparr>"
    by simp
  have "r_message r2 =
           (if p_aura p1 < a_auraCost stone_bullet then ''Not enough aura''
            else ''Ability on cooldown ('' @ ''500'' @ ''ms remaining)'')"
    using r2(4) unfolding remaining .
  then have "r_message r2 = ''Ability on cooldown (500ms remaining)''"
    unfolding p1 using enough by simp
  with r2(1,2) have "\<exists>r2. useAbility 2500 rnd0 uuid0 ''alice-id'' ''stone_bullet''
                        (Some ''golem-1'') (snd ?run) = (r2, snd ?run) \<and>
                      \<not> r_success r2 \<and>
                      r_message r2 = ''Ability on cooldown (500ms remaining)''"
    by blast
  then show ?thesis
    by (intro conjI ok example_resolve(1) t0 within)
qed

text \<open>
  The cooldown tracker is keyed by the name as the caller spelled it, while the catalog
  is keyed by the normalised name. The amended statement is therefore about the same
  name string: right after a "Stone Bullet", a \<^verbatim>\<open>stone_bullet\<close> goes through.
\<close>

lemma cooldown_keyed_by_spelling:
  "r_success (fst (useAbility 1000 rnd0 uuid0 ''alice-id'' ''Stone Bullet'' None exampleWorld)) \<and>
   r_success (fst (useAbility 1001 rnd0 uuid0 ''alice-id'' ''stone_bullet'' None
                (snd (useAbility 1000 rnd0 uuid0 ''alice-id'' ''Stone Bullet'' None
                        exampleWorld))))"
proof -
  let ?s1 = "setCooldown 1000 ''alice-id'' ''Stone Bullet'' (a_cooldown stone_bullet)
               (updatePlayer ''alice-id'' (auraPatch alice stone_bullet) exampleWorld)"
  have res: "resolveAbility ''Stone Bullet'' = Some stone_bullet"
    by (simp add: resolveAbility_def normalizeName_display abilities_keys)
  have lvl: "a_requiredLevel stone_bullet \<le> p_level alice"
    by (simp add: stone_bullet_def alice_def newPlayer_def)
  have aura: "a_auraCost stone_bullet \<le> p_aura alice"
    by (simp add: stone_bullet_def alice_def newPlayer_def)
  note first = useAbility_passes [OF example_players(1) res lvl aura example_no_cooldown,
      of 1000 rnd0 uuid0 None]
  have s1: "snd (useAbility 1000 rnd0 uuid0 ''alice-id'' ''Stone Bullet'' None exampleWorld) = ?s1"
    by (simp add: first handleTarget_def)
  have gp1: "getPlayer ''alice-id'' ?s1 =
               Some (alice\<lparr>p_aura := p_aura alice - a_auraCost stone_bullet\<rparr>)"
    by (rule getPlayer_after_payment [OF example_players(1)])
  have lvl1: "a_requiredLevel stone_bullet
                \<le> p_level (alice\<lparr>p_aura := p_aura alice - a_auraCost stone_bullet\<rparr>)"
    using lvl by simp
  have aura1: "a_auraCost stone_bullet
                \<le> p_aura (alice\<lparr>p_aura := p_aura alice - a_auraCost stone_bullet\<rparr>)"
    by (simp add: stone_bullet_def alice_def newPlayer_def)
  have free: "\<not> isOnCooldown 1001 ''alice-id'' ''stone_bullet'' ?s1"
    by (simp add: isOnCooldown_def setCooldown_def updatePlayer_def exampleWorld_def Let_def)
  note second = useAbility_passes [OF gp1 example_resolve(1) lvl1 aura1 free,
      of rnd0 uuid0 None]
  show ?thesis
    unfolding s1 by (simp add: first second)
qed

subsection \<open>C6: rebirth\<close>

text \<open>
  Claim C6. For an existing player, the rebirth endpoint answers a player below level
  100 with status 400 and leaves the world as it was. For a player at level 100 or above
  it answers 200 with the reborn player, and the player's row then has level 1,
  experience 0, the rebirth cycle incremented by 1, health and maxHealth 1000, aura and
  maxAura 500, and each of the four hidden stats increased by \<open>oldLevel * 10\<close>; the
  other fields of the row, the other players, the monsters and the cooldowns are as
  before.
\<close>

theorem rebirthEndpoint_level_gate:
  assumes "getPlayer playerId s = Some p"
  shows "(p_level p < 100 \<longrightarrow>
            rebirthEndpoint playerId s = ((400, Message ''Must reach level 100 to rebirth''), s)) \<and>
         (100 \<le> p_level p \<longrightarrow>
            (\<exists>s'. rebirthEndpoint playerId s = ((200, RebornPlayer (Some (reborn p))), s') \<and>
                  getPlayer playerId s' = Some (reborn p) \<and>
                  (\<forall>other. other \<noteq> playerId \<longrightarrow> getPlayer other s' = getPlayer other s) \<and>
                  monsters s' = monsters s \<and> playerCooldowns s' = playerCooldowns s))"
proof (intro conjI impI)
  assume "p_level p < 100"
  with assms show "rebirthEndpoint playerId s = ((400, Message ''Must reach level 100 to rebirth''), s)"
    by (simp add: rebirthEndpoint_def)
next
  assume lvl: "100 \<le> p_level p"
  let ?u = "noPatch
                 \<lparr> u_level := Some 1, u_experience := Some 0,
                   u_rebirthCycle := Some (p_rebirthCycle p + 1),
                   u_health := Some 1000, u_maxHealth := Some 1000,
                   u_aura := Some 500, u_maxAura := Some 500,
                   u_hiddenStrength := Some (p_hiddenStrength p + p_level p * 10),
                   u_hiddenAgility := Some (p_hiddenAgility p + p_level p * 10),
                   u_hiddenIntelligence := Some (p_hiddenIntelligence p + p_level p * 10),
                   u_hiddenEndurance := Some (p_hiddenEndurance p + p_level p * 10) \<rparr>"
  let ?s' = "updatePlayer playerId ?u s"
  have pid: "p_id p = playerId" by (rule getPlayer_id [OF assms])
  have ap: "applyPatch ?u p = reborn p"
    by (simp add: applyPatch_def noPatch_def orKeep_def reborn_def)
  have gp: "getPlayer playerId ?s' = Some (reborn p)"
    using assms pid ap by (simp add: getPlayer_updatePlayer)
  have pr: "performRebirth playerId s = Inr (Some (reborn p), ?s')"
    using assms gp by (simp add: performRebirth_def Let_def floor_times_ten)
  have ep: "rebirthEndpoint playerId s = ((200, RebornPlayer (Some (reborn p))), ?s')"
    using assms lvl pid pr by (simp add: rebirthEndpoint_def)
  have others: "\<forall>other. other \<noteq> playerId \<longrightarrow> getPlayer other ?s' = getPlayer other s"
  proof (intro allI impI)
    fix other assume ne: "other \<noteq> playerId"
    show "getPlayer other ?s' = getPlayer other s"
    proof (cases "getPlayer other s")
      case None
      then show ?thesis by (simp add: getPlayer_updatePlayer)
    next
      case (Some q)
      then have "p_id q = other" by (rule getPlayer_id)
      with Some ne show ?thesis by (simp add: getPlayer_updatePlayer)
    qed
  qed
  have "monsters ?s' = monsters s \<and> playerCooldowns ?s' = playerCooldowns s"
    by (simp add: updatePlayer_def)
  with ep gp others
  show "\<exists>s'. rebirthEndpoint playerId s = ((200, RebornPlayer (Some (reborn p))), s') \<and>
             getPlayer playerId s' = Some (reborn p) \<and>
             (\<forall>other. other \<noteq> playerId \<longrightarrow> getPlayer other s' = getPlayer other s) \<and>
             monsters s' = monsters s \<and> playerCooldowns s' = playerCooldowns s"
    by blast
qed

theorem rebirthEndpoint_level_gate_witness:
  "getPlayer ''alice-id'' exampleWorld = Some alice \<and> p_level alice < 100 \<and>
   rebirthEndpoint ''alice-id'' exampleWorld =
     ((400, Message ''Must reach level 100 to rebirth''), exampleWorld) \<and>
   getPlayer ''carol-id'' exampleWorld = Some carol \<and> 100 \<le> p_level carol \<and>
   (\<exists>s'. rebirthEndpoint ''carol-id'' exampleWorld =
            ((200, RebornPlayer (Some (reborn carol))), s') \<and>
         getPlayer ''carol-id'' s' = Some (reborn carol) \<and>
         (\<forall>other. other \<noteq> ''carol-id'' \<longrightarrow> getPlayer other s' = getPlayer other exampleWorld) \<and>
         monsters s' = monsters exampleWorld \<and>
         playerCooldowns s' = playerCooldowns exampleWorld) \<and>
   p_level (reborn carol) = 1 \<and> p_rebirthCycle (reborn carol) = 1 \<and>
   p_hiddenStrength (reborn carol) = 1000"
proof -
  have a: "p_level alice < 100" by (simp add: alice_def newPlayer_def)
  have c: "100 \<le> p_level carol" by (simp add: carol_def newPlayer_def)
  have r: "p_level (reborn carol) = 1 \<and> p_rebirthCycle (reborn carol) = 1 \<and>
           p_hiddenStrength (reborn carol) = 1000"
    by (simp add: reborn_def carol_def newPlayer_def)
  show ?thesis
    using rebirthEndpoint_level_gate [OF example_players(1)]
      rebirthEndpoint_level_gate [OF example_players(3)] a c r example_players(1,3)
    by simp
qed

subsection \<open>C7: expired loot\<close>

text \<open>
  Claim C7. When every row of the world loot with the given id has an expiry time that
  has passed (\<open>expiresAt \<le> now\<close>), \<^verbatim>\<open>collectWorldLoot\<close> returns false and the world
  is unchanged: the inventory is as before, no row of the world loot is deleted and the
  trace of writes has not grown.
\<close>

theorem collectWorldLoot_expired:
  assumes "\<forall>l \<in> set (worldLoot s). wl_id l = lootId \<longrightarrow> (\<exists>e. wl_expiresAt l = Some e \<and> e \<le> now)"
  shows "collectWorldLoot now newId playerId lootId s = (False, s)"
proof -
  have "find (\<lambda>l. wl_id l = lootId \<and> notExpired now l) (worldLoot s) = None"
    using assms by (auto simp: find_None_iff notExpired_def)
  then show ?thesis by (simp add: collectWorldLoot_def)
qed

theorem collectWorldLoot_expired_witness:
  "worldLoot exampleWorld = [staleLoot] \<and>
   wl_id staleLoot = ''loot-1'' \<and> wl_expiresAt staleLoot = Some 301000 \<and>
   (301000 :: int) \<le> 400000 \<and>
   collectWorldLoot 400000 ''inv-1'' ''alice-id'' ''loot-1'' exampleWorld = (False, exampleWorld)"
proof -
  have w: "worldLoot exampleWorld = [staleLoot]" by (simp add: exampleWorld_def)
  have i: "wl_id staleLoot = ''loot-1''" by (simp add: staleLoot_def)
  have e: "wl_expiresAt staleLoot = Some 301000" by (simp add: staleLoot_def)
  have h: "\<forall>l \<in> set (worldLoot exampleWorld).
      wl_id l = ''loot-1'' \<longrightarrow> (\<exists>e. wl_expiresAt l = Some e \<and> e \<le> 400000)"
    by (simp add: w e)
  show ?thesis
    using collectWorldLoot_expired [OF h] w i e by simp
qed

subsection \<open>C8: the regeneration tick\<close>

text \<open>
  Claim C8. After a regeneration tick, the row of every online player has its health
  increased by \<open>\<lfloor>maxHealth * 0.01\<rfloor>\<close> and its aura by \<open>\<lfloor>maxAura * 0.02\<rfloor>\<close>, each capped at
  its maximum, and no other field changed; the rows of the offline players are as
  before. The writes the tick issues are exactly one update, of health and aura, for
  each online player whose capped health or aura differs from the current value, in the
  order of the table; a player with both values at their maxima gets no write. The ids
  of the players are distinct.
\<close>

theorem regenerationTick_effect:
  assumes "distinct (map p_id (players s))"
  shows "players (regenerationTick s) =
           map (\<lambda>p. if p_isOnline p
                    then p\<lparr>p_health := regenHealth p, p_aura := regenAura p\<rparr> else p)
             (players s) \<and>
         writes (regenerationTick s) =
           writes s @ map regenWrite (filter regenChanges (filter p_isOnline (players s))) \<and>
         monsters (regenerationTick s) = monsters s \<and>
         worldLoot (regenerationTick s) = worldLoot s \<and>
         playerInventory (regenerationTick s) = playerInventory s \<and>
         playerCooldowns (regenerationTick s) = playerCooldowns s"
  using regenerationTick_players [OF assms]
  by (simp add: regenerationTick_def fold_regenOne_rest fold_regenOne_writes getOnlinePlayers_def)

theorem regenerationTick_effect_witness:
  "distinct (map p_id (players exampleWorld)) \<and>
   map (\<lambda>p. (p_id p, p_health p, p_aura p)) (players (regenerationTick exampleWorld)) =
     [(''alice-id'', 3140, 540), (''bob-id'', 1000, 50), (''carol-id'', 6000, 3000),
      (''dave-id'', 1000, 70), (''veteran-id'', 5950, 2975)] \<and>
   map (\<lambda>w. case w of UpdatePlayer pid u \<Rightarrow> (pid, u_health u, u_aura u) | _ \<Rightarrow> ([], None, None))
     (writes (regenerationTick exampleWorld)) =
     [(''alice-id'', Some 3140, Some 540), (''bob-id'', Some 1000, Some 50),
      (''dave-id'', Some 1000, Some 70)]"
proof -
  have v: "regenHealth alice = 3140" "regenAura alice = 540"
          "regenHealth bob = 1000" "regenAura bob = 50"
          "regenHealth dave = 1000" "regenAura dave = 70"
    by (simp_all add: regenHealth_def regenAura_def floor_hundredth floor_fiftieth
        alice_def bob_def dave_def newPlayer_def)
  have on: "p_isOnline alice" "p_isOnline bob" "\<not> p_isOnline carol" "p_isOnline dave"
           "\<not> p_isOnline veteran"
    by (simp_all add: example_defs)
  have ch: "regenChanges alice" "regenChanges bob" "regenChanges dave"
    by (simp_all add: regenChanges_def v) (simp_all add: alice_def bob_def dave_def newPlayer_def)
  have ps: "players exampleWorld = [alice, bob, carol, dave, veteran]"
       and ws: "writes exampleWorld = []"
    by (simp_all add: exampleWorld_def)
  have ids: "p_id alice = ''alice-id''" "p_id bob = ''bob-id''" "p_id carol = ''carol-id''"
            "p_id dave = ''dave-id''" "p_id veteran = ''veteran-id''"
    by (simp_all add: example_defs)
  have rest: "p_health carol = 6000" "p_aura carol = 3000" "p_health veteran = 5950"
             "p_aura veteran = 2975"
    by (simp_all add: example_defs)
  show ?thesis
    using regenerationTick_effect [OF example_distinct(1)] example_distinct(1)
    by (simp add: ps ws on ch v ids rest regenWrite_def noPatch_def)
qed

subsection \<open>C9: name normalisation\<close>

text \<open>
  Claim C9 does not hold of the code. The lookup lowercases the name and replaces its
  first space only, and it leaves a hyphen alone. The wire identifier
  \<^verbatim>\<open>ground_dig_up\<close> resolves to the Ground Dig-Up ability and a level-60 player
  casts it, while that ability's own display name "Ground Dig-Up" resolves to nothing
  and the same player is told "Unknown ability"; and "ground dig up" is equal to
  \<^verbatim>\<open>ground_dig_up\<close> after the normalisation the claim describes, yet resolves to
  nothing.
\<close>

theorem resolveAbility_ground_dig_up:
  "resolveAbility ''ground_dig_up'' = Some ground_dig_up \<and>
   resolveAbility ''Ground Dig-Up'' = None \<and>
   r_success (fst (useAbility 1000 rnd0 uuid0 ''alice-id'' ''ground_dig_up'' None exampleWorld)) \<and>
   r_message (fst (useAbility 1000 rnd0 uuid0 ''alice-id'' ''Ground Dig-Up'' None exampleWorld)) =
     ''Unknown ability'' \<and>
   specNormalize ''ground dig up'' = specNormalize ''ground_dig_up'' \<and>
   resolveAbility ''ground dig up'' = None"
proof -
  have n: "normalizeName ''ground dig up'' = ''ground_dig up''" by code_simp
  have e: "specNormalize ''ground dig up'' = specNormalize ''ground_dig_up''" by code_simp
  have a1: "abilities ''ground_dig-up'' = None" by (simp add: abilities_def catalog_def)
  have a2: "abilities ''ground_dig up'' = None" by (simp add: abilities_def catalog_def)
  have lvl: "a_requiredLevel ground_dig_up \<le> p_level alice"
    by (simp add: ground_dig_up_def alice_def newPlayer_def)
  have aura: "a_auraCost ground_dig_up \<le> p_aura alice"
    by (simp add: ground_dig_up_def alice_def newPlayer_def)
  have wire: "r_success (fst (useAbility 1000 rnd0 uuid0 ''alice-id'' ''ground_dig_up'' None
                                exampleWorld))"
    by (simp add: useAbility_passes [OF example_players(1) example_resolve(2) lvl aura
          example_no_cooldown])
  have display: "r_message (fst (useAbility 1000 rnd0 uuid0 ''alice-id'' ''Ground Dig-Up'' None
                                   exampleWorld)) = ''Unknown ability''"
    by (simp add: useAbility_def example_players normalizeName_display a1 failureResult_def)
  show ?thesis
    using e wire display
    by (simp add: resolveAbility_def normalizeName_wire normalizeName_display
        abilities_keys n a1 a2)
qed

subsection \<open>C10: no valid target\<close>

text \<open>
  Claim C10. When a call passes every validation check and its target id is absent or
  does not name a monster that is alive, in the combat zone and within range 50 of the
  player, the result has \<open>success = True\<close> and reports the damage
  \<open>ability.damage + \<lfloor>hiddenStrength * 0.1\<rfloor>\<close>; the player's row is the old row with the
  aura reduced by the full cost; the cooldown of the ability is armed until
  \<open>now + cooldown\<close>; the monster table is unchanged and the only write issued is the
  update of the player's aura.
\<close>

theorem useAbility_without_valid_target:
  assumes "getPlayer playerId s = Some player"
    and "resolveAbility abilityName = Some ability"
    and "a_requiredLevel ability \<le> p_level player"
    and "a_auraCost ability \<le> p_aura player"
    and "\<not> isOnCooldown now playerId abilityName s"
    and "targetId = None \<or> (\<exists>tid. targetId = Some tid \<and> \<not> namesValidMonster player tid s)"
  shows "\<exists>r s'. useAbility now rnd uuid playerId abilityName targetId s = (r, s') \<and>
           r_success r \<and>
           r_damage r = Some (a_damage ability + \<lfloor>real_of_int (p_hiddenStrength player) * 0.1\<rfloor>) \<and>
           getPlayer playerId s' = Some (player\<lparr>p_aura := p_aura player - a_auraCost ability\<rparr>) \<and>
           (\<exists>cds. playerCooldowns s' playerId = Some cds \<and>
                  cds abilityName = Some (now + a_cooldown ability)) \<and>
           monsters s' = monsters s \<and>
           writes s' = writes s @
             [UpdatePlayer playerId (noPatch\<lparr>u_aura := Some (p_aura player - a_auraCost ability)\<rparr>)]"
proof -
  let ?u = "noPatch\<lparr>u_aura := Some (p_aura player - a_auraCost ability)\<rparr>"
  let ?s1 = "updatePlayer playerId ?u s"
  let ?s2 = "setCooldown now playerId abilityName (a_cooldown ability) ?s1"
  have mon: "monsters ?s2 = monsters s"
    by (simp add: setCooldown_def updatePlayer_def Let_def)
  have tgt: "targetId = None \<or> (\<exists>tid. targetId = Some tid \<and> \<not> namesValidMonster player tid ?s2)"
    using assms(6) namesValidMonster_cong [OF mon] by simp
  have ht: "handleTarget now rnd uuid player dmg targetId ?s2 = ?s2" for dmg
    by (rule handleTarget_no_target [OF tgt])
  have pid: "p_id player = playerId" by (rule getPlayer_id [OF assms(1)])
  have patched: "applyPatch ?u player = player\<lparr>p_aura := p_aura player - a_auraCost ability\<rparr>"
    by (simp add: applyPatch_def noPatch_def orKeep_def)
  have gp: "getPlayer playerId ?s2 = Some (player\<lparr>p_aura := p_aura player - a_auraCost ability\<rparr>)"
  proof -
    have "getPlayer playerId ?s2 = getPlayer playerId ?s1"
      by (simp add: getPlayer_def setCooldown_def Let_def)
    then show ?thesis
      using assms(1) pid patched by (simp add: getPlayer_updatePlayer)
  qed
  have cd: "\<exists>cds. playerCooldowns ?s2 playerId = Some cds \<and>
                  cds abilityName = Some (now + a_cooldown ability)"
    by (simp add: setCooldown_def Let_def)
  have wr: "writes ?s2 = writes s @ [UpdatePlayer playerId ?u]"
    by (simp add: setCooldown_def updatePlayer_def Let_def)
  have run: "useAbility now rnd uuid playerId abilityName targetId s =
       (\<lparr> r_success = True,
          r_damage = Some (a_damage ability + \<lfloor>real_of_int (p_hiddenStrength player) * 0.1\<rfloor>),
          r_abilityUsed = abilityName, r_playerId = playerId, r_targetId = targetId,
          r_message = ''Used '' @ a_name ability @ '' for '' @
            toString (a_damage ability + \<lfloor>real_of_int (p_hiddenStrength player) * 0.1\<rfloor>) @
            '' damage'',
          r_auraCost = a_auraCost ability \<rparr>, ?s2)"
    using assms(1-5) ht
    by (simp add: useAbility_def resolveAbility_def Let_def)
  show ?thesis
    unfolding run using gp cd mon wr by simp
qed

theorem useAbility_without_valid_target_witness:
  "getPlayer ''alice-id'' exampleWorld = Some alice \<and>
   resolveAbility ''stone_bullet'' = Some stone_bullet \<and>
   a_requiredLevel stone_bullet \<le> p_level alice \<and>
   a_auraCost stone_bullet \<le> p_aura alice \<and>
   \<not> isOnCooldown 1000 ''alice-id'' ''stone_bullet'' exampleWorld \<and>
   \<not> namesValidMonster alice ''ghost'' exampleWorld \<and>
   (\<exists>r s'. useAbility 1000 rnd0 uuid0 ''alice-id'' ''stone_bullet'' (Some ''ghost'') exampleWorld =
             (r, s') \<and>
           r_success r \<and>
           r_damage r = Some (a_damage stone_bullet + \<lfloor>real_of_int (p_hiddenStrength alice) * 0.1\<rfloor>) \<and>
           getPlayer ''alice-id'' s' = Some (alice\<lparr>p_aura := p_aura alice - a_auraCost stone_bullet\<rparr>) \<and>
           (\<exists>cds. playerCooldowns s' ''alice-id'' = Some cds \<and>
                  cds ''stone_bullet'' = Some (1000 + a_cooldown stone_bullet)) \<and>
           monsters s' = monsters exampleWorld \<and>
           writes s' = writes exampleWorld @
             [UpdatePlayer ''alice-id''
                (noPatch\<lparr>u_aura := Some (p_aura alice - a_auraCost stone_bullet)\<rparr>)]) \<and>
   (\<exists>r s'. useAbility 1000 rnd0 uuid0 ''alice-id'' ''stone_bullet'' None exampleWorld = (r, s') \<and>
           r_success r \<and> monsters s' = monsters exampleWorld)"
proof -
  have lvl: "a_requiredLevel stone_bullet \<le> p_level alice"
    by (simp add: stone_bullet_def alice_def newPlayer_def)
  have aura: "a_auraCost stone_bullet \<le> p_aura alice"
    by (simp add: stone_bullet_def alice_def newPlayer_def)
  have ghost: "\<not> namesValidMonster alice ''ghost'' exampleWorld"
    by (simp add: namesValidMonster_def exampleWorld_def golem_def)
  have t1: "Some ''ghost'' = None \<or>
            (\<exists>tid. Some ''ghost'' = Some tid \<and> \<not> namesValidMonster alice tid exampleWorld)"
    using ghost by simp
  have t2: "(None :: string option) = None \<or>
            (\<exists>tid. None = Some tid \<and> \<not> namesValidMonster alice tid exampleWorld)"
    by simp
  have second: "\<exists>r s'. useAbility 1000 rnd0 uuid0 ''alice-id'' ''stone_bullet'' None exampleWorld
                  = (r, s') \<and> r_success r \<and> monsters s' = monsters exampleWorld"
    using useAbility_without_valid_target [OF example_players(1) example_resolve(1) lvl aura
        example_no_cooldown t2, of 1000 rnd0 uuid0]
    by blast
  show ?thesis
    by (intro conjI example_players(1) example_resolve(1) lvl aura example_no_cooldown ghost
        second
        useAbility_without_valid_target [OF example_players(1) example_resolve(1) lvl aura
          example_no_cooldown t1])
qed

end
